theory Spec2Isabelle
  imports Main
begin

section \<open>Data model of \<open>src/core/weechat.c\<close>\<close>

text \<open>
  The file \<open>weechat.c\<close> is the lifecycle controller: it parses the command line,
  resolves the home directory, installs the signal handlers, calls the initialisation
  entry points of the other subsystems in a fixed order and tears the process down.
  Almost everything it calls lives in other files. The embedding therefore keeps
  \<^item> the global variables of the file (lines 82--104) as the fields of a record,
  \<^item> the heap blocks the file allocates and frees, so that a \<open>free\<close> of a block that
    is not live is visible,
  \<^item> a trace of every call that leaves the file, in program order,
  \<^item> and the ways a function of the file can end: it returns, the process ends through
    \<open>exit\<close>, through \<open>abort\<close> or by a signal, or the C semantics leaves the behaviour
    open.
  What a collaborator answers (an environment variable, the result of \<open>secure_init\<close>,
  what \<open>stat\<close> finds) is read from an environment record that the theorems quantify over.
  Collaborators are taken not to write the global variables of this file. The one global
  the file only reads, \<open>weechat_first_start\<close>, is written by the configuration code and
  is therefore part of the environment.
\<close>

subsection \<open>Pointers, signals, messages\<close>

text \<open>A \<open>char *\<close>: \<open>None\<close> is \<open>NULL\<close>, \<open>Some a\<close> the address of a heap block.\<close>

type_synonym ptr = "nat option"

datatype signal = SIGHUP | SIGINT | SIGQUIT | SIGSEGV | SIGPIPE | SIGTERM

text \<open>The numbers of \<open>signal.h\<close> (the values POSIX fixes for these signals on Linux).\<close>

fun signo :: "signal \<Rightarrow> int" where
  "signo SIGHUP = 1"
| "signo SIGINT = 2"
| "signo SIGQUIT = 3"
| "signo SIGSEGV = 11"
| "signo SIGPIPE = 13"
| "signo SIGTERM = 15"

text \<open>What \<open>util_catch_signal\<close> can be given as its second argument in this file.\<close>

datatype handler =
    SIG_DFL | SIG_IGN | Debug_sigsegv | Weechat_sighup | Weechat_sigquit | Weechat_sigterm

datatype stream = Stdout | Stderr

text \<open>
  The texts the file prints with \<open>string_fprintf\<close>. The wording goes through gettext and
  the version macros, which are not part of the file; a message is identified by its
  format string and carries the format's arguments.
\<close>

datatype message =
    Msg_newline
  | Msg_copyright
  | Msg_usage string
  | Msg_usage_options
  | Msg_license
  | Msg_version
  | Err_missing_argument string
  | Err_no_HOME
  | Err_no_memory
  | Err_home_undefined
  | Err_not_a_directory string
  | Err_cannot_create string

text \<open>The texts the file prints with \<open>gui_chat_printf\<close> and \<open>gui_chat_printf_date_tags\<close>.\<close>

datatype chat_message =
    Chat_logo
  | Chat_separator
  | Chat_empty
  | Chat_welcome
  | Chat_dashes
  | Chat_term_warning bool string
  | Chat_term_hint bool
  | Chat_locale_warning

text \<open>Every function of another file that \<open>weechat.c\<close> calls.\<close>

datatype ext_call =
    Time
  | Gettimeofday
  | Setlocale
  | Bindtextdomain
  | Bind_textdomain_codeset
  | Textdomain
  | Utf8_init
  | Util_catch_signal signal handler
  | Hdata_init
  | Hook_init
  | Debug_init
  | Gui_color_init
  | Gui_chat_init
  | Command_init
  | Completion_init
  | Gui_key_init
  | Network_init_gcrypt
  | Secure_init
  | Config_weechat_init
  | Stat string
  | Util_mkdir string nat
  | Log_init
  | Plugin_api_init
  | Secure_read
  | Config_weechat_read
  | Network_init_gnutls
  | Gui_init_cb
  | Upgrade_weechat_load
  | Debug_sigsegv_dump
  | Command_version_display
  | Command_startup int
  | Plugin_init int "string list"
  | Gui_layout_window_apply
  | Upgrade_weechat_end
  | Gui_color_display_terminal_colors
  | Gui_chat_print_lines_waiting_buffer "stream option"
  | Log_close
  | Network_end
  | Debug_end
  | Gui_layout_store_on_exit
  | Plugin_end
  | Config_weechat_write
  | Secure_write
  | Gui_end_cb int
  | Proxy_free_all
  | Config_weechat_free
  | Secure_free
  | Config_file_free_all
  | Gui_key_end
  | Unhook_all
  | Hdata_end
  | Secure_end
  | String_end

datatype event =
    Call ext_call
  | Fprintf stream message
  | Chat_printf chat_message
  | Line_out "stream option" string
  | Free nat

subsection \<open>The environment\<close>

record env =
  getenv :: "string \<Rightarrow> string option"
  alloc_fails :: "nat \<Rightarrow> bool"
  now :: int
  setlocale_ok :: bool
  enable_nls :: bool
  codeset :: string
  secure_init_ok :: bool
  config_weechat_init_ok :: bool
  config_weechat_home :: string
  stat_isdir :: "string \<Rightarrow> bool option"
  util_mkdir_ok :: "string \<Rightarrow> bool"
  first_start :: int
  upgrade_load_ok :: bool
  config_startup_display_logo :: bool
  config_startup_display_version :: bool
  config_look_save_config_on_exit :: bool
  ext_lines :: "ext_call \<Rightarrow> string list"

text \<open>
  \<^item> \<open>alloc_fails n\<close>: the \<open>n\<close>-th allocation of the process (\<open>strdup\<close>, \<open>malloc\<close>)
    returns \<open>NULL\<close>.
  \<^item> \<open>enable_nls\<close>, \<open>codeset\<close>, \<open>config_weechat_home\<close>: the build options \<open>ENABLE_NLS\<close>,
    \<open>nl_langinfo (CODESET)\<close> (the empty string without \<open>HAVE_LANGINFO_CODESET\<close>) and
    the macro \<open>WEECHAT_HOME\<close>.
  \<^item> \<open>stat_isdir p\<close>: \<open>None\<close> when \<open>stat\<close> fails on \<open>p\<close>, otherwise whether \<open>S_ISDIR\<close>
    holds.
  \<^item> \<open>first_start\<close>: the value of the global \<open>weechat_first_start\<close> when the startup
    message is displayed.
  \<^item> \<open>upgrade_load_ok\<close>: whether \<open>upgrade_weechat_load\<close> restored the session. The file
    never reads that result.
  \<^item> \<open>ext_lines c\<close>: the chat lines the collaborator \<open>c\<close> leaves in the buffer of lines
    waiting for the interface.
\<close>

subsection \<open>The process state\<close>

record world =
  weechat_argv0 :: ptr
  weechat_upgrading :: int
  weechat_first_start_time :: int
  weechat_upgrade_count :: int
  weechat_quit_signal :: int
  weechat_home :: ptr
  weechat_locale_ok :: int
  weechat_local_charset :: ptr
  weechat_server_cmd_line :: int
  weechat_auto_load_plugins :: int
  weechat_plugin_no_dlclose :: int
  weechat_no_gnutls :: int
  weechat_no_gcrypt :: int
  weechat_startup_commands :: ptr
  heap :: "nat \<rightharpoonup> string"
  allocs :: nat
  sigtable :: "signal \<Rightarrow> handler"
  lines_waiting :: "string list"
  upgrade_files :: bool
  trace :: "event list"

text \<open>
  The first fourteen fields are globals of lines 82--104 (\<open>weechat_upgrade_count\<close> is
  a C \<open>int\<close>; it starts at 0 and the file adds to it once per process, so it stays far
  from the range's end). \<open>heap\<close> holds the live blocks with their text, \<open>allocs\<close> counts
  the allocations made so far, \<open>sigtable\<close> is the disposition of each signal,
  \<open>lines_waiting\<close> the buffered chat lines, \<open>upgrade_files\<close> whether the session files of
  an upgrade exist in the home directory.
\<close>

datatype outcome =
    Returns world
  | Exits int world
  | Aborts world
  | Killed signal world
  | Undefined_behaviour world

definition EXIT_SUCCESS :: int where
  "EXIT_SUCCESS = 0"

definition EXIT_FAILURE :: int where
  "EXIT_FAILURE = 1"

text \<open>The state at process start: the initialisers of lines 82--104.\<close>

definition initial_world :: world where
  "initial_world =
     \<lparr> weechat_argv0 = None, weechat_upgrading = 0, weechat_first_start_time = 0, weechat_upgrade_count = 0, weechat_quit_signal = 0,
       weechat_home = None, weechat_locale_ok = 0, weechat_local_charset = None,
       weechat_server_cmd_line = 0, weechat_auto_load_plugins = 1,
       weechat_plugin_no_dlclose = 0, weechat_no_gnutls = 0, weechat_no_gcrypt = 0,
       weechat_startup_commands = None,
       heap = Map.empty, allocs = 0, sigtable = (\<lambda>_. SIG_DFL), lines_waiting = [],
       upgrade_files = False, trace = [] \<rparr>"

subsection \<open>Sequencing, calls, allocation\<close>

text \<open>\<open>seq r f\<close>: the statement after \<open>r\<close> runs only if \<open>r\<close> returned.\<close>

definition seq :: "outcome \<Rightarrow> (world \<Rightarrow> outcome) \<Rightarrow> outcome" where
  "seq r f = (case r of Returns w \<Rightarrow> f w | _ \<Rightarrow> r)"

definition emit :: "event \<Rightarrow> world \<Rightarrow> world" where
  "emit e w = w\<lparr>trace := trace w @ [e]\<rparr>"

text \<open>A call of a collaborator: it is recorded, and it may leave chat lines waiting.\<close>

definition call :: "env \<Rightarrow> ext_call \<Rightarrow> world \<Rightarrow> world" where
  "call env c w =
     w\<lparr>trace := trace w @ [Call c], lines_waiting := lines_waiting w @ ext_lines env c\<rparr>"

definition calls :: "env \<Rightarrow> ext_call list \<Rightarrow> world \<Rightarrow> world" where
  "calls env cs w = foldl (\<lambda>w c. call env c w) w cs"

definition string_fprintf :: "stream \<Rightarrow> message \<Rightarrow> world \<Rightarrow> world" where
  "string_fprintf f m w = emit (Fprintf f m) w"

definition gui_chat_printf :: "chat_message \<Rightarrow> world \<Rightarrow> world" where
  "gui_chat_printf m w = emit (Chat_printf m) w"

text \<open>
  Modelled from the spec: \<open>gui_chat_print_lines_waiting_buffer\<close> (gui-chat.c, not in the
  sources) flushes any buffered diagnostic output: each waiting line goes to the given
  stream (\<open>NULL\<close>: to the chat buffer) and the buffer is emptied.
\<close>

definition gui_chat_print_lines_waiting_buffer :: "stream option \<Rightarrow> world \<Rightarrow> world" where
  "gui_chat_print_lines_waiting_buffer f w =
     w\<lparr>trace := trace w @ Call (Gui_chat_print_lines_waiting_buffer f)
                   # map (Line_out f) (lines_waiting w),
       lines_waiting := []\<rparr>"

text \<open>
  \<open>strdup\<close> and \<open>malloc\<close> followed by \<open>snprintf\<close>: a fresh block holding the text, or \<open>NULL\<close>.
  Addresses are never reused.
\<close>

definition strdup :: "env \<Rightarrow> string \<Rightarrow> world \<Rightarrow> ptr \<times> world" where
  "strdup env s w =
     (if alloc_fails env (allocs w) then (None, w\<lparr>allocs := Suc (allocs w)\<rparr>)
      else (Some (Suc (allocs w)),
            w\<lparr>heap := (heap w)(Suc (allocs w) \<mapsto> s), allocs := Suc (allocs w)\<rparr>))"

text \<open>\<open>free\<close>: freeing a block that is not live is undefined behaviour.\<close>

definition free_block :: "nat \<Rightarrow> world \<Rightarrow> outcome" where
  "free_block a w =
     (if heap w a = None then Undefined_behaviour (emit (Free a) w)
      else Returns (emit (Free a) (w\<lparr>heap := (heap w)(a := None)\<rparr>)))"

text \<open>\<open>if (p) free (p);\<close>\<close>

definition free_if :: "ptr \<Rightarrow> world \<Rightarrow> outcome" where
  "free_if p w = (case p of None \<Rightarrow> Returns w | Some a \<Rightarrow> free_block a w)"

text \<open>The text a pointer points to, if it points to a live block.\<close>

definition cstr :: "world \<Rightarrow> ptr \<Rightarrow> string option" where
  "cstr w p = (case p of None \<Rightarrow> None | Some a \<Rightarrow> heap w a)"

section \<open>The functions of the file\<close>

subsection \<open>\<open>weechat_shutdown\<close> (lines 581--601)\<close>

definition weechat_shutdown :: "env \<Rightarrow> int \<Rightarrow> int \<Rightarrow> world \<Rightarrow> outcome" where
  "weechat_shutdown env return_code crash w =
     seq (Returns (calls env [Log_close, Network_end, Debug_end]
                    (gui_chat_print_lines_waiting_buffer (Some Stderr) w)))
       (\<lambda>w. seq (free_if (weechat_argv0 w) w)
       (\<lambda>w. seq (free_if (weechat_home w) w)
       (\<lambda>w. seq (free_if (weechat_local_charset w) w)
       (\<lambda>w. if crash \<noteq> 0 then Aborts w
            else if return_code \<ge> 0 then Exits return_code w
            else Returns w))))"

subsection \<open>\<open>weechat_display_copyright\<close>, \<open>weechat_display_usage\<close> (lines 111--163)\<close>

definition weechat_display_copyright :: "world \<Rightarrow> world" where
  "weechat_display_copyright w =
     string_fprintf Stdout Msg_newline
       (string_fprintf Stdout Msg_copyright
         (string_fprintf Stdout Msg_newline w))"

definition weechat_display_usage :: "string \<Rightarrow> world \<Rightarrow> world" where
  "weechat_display_usage exec_name w =
     string_fprintf Stdout Msg_newline
       (string_fprintf Stdout Msg_usage_options
         (string_fprintf Stdout Msg_newline
           (string_fprintf Stdout (Msg_usage exec_name)
             (string_fprintf Stdout Msg_newline
               (weechat_display_copyright w)))))"

subsection \<open>\<open>weechat_parse_args\<close> (lines 171--287)\<close>

text \<open>
  The loop \<open>for (i = 1; i < argc; i++)\<close>, on the arguments from \<open>argv[i]\<close> on. A value
  option takes the next argument with \<open>argv[++i]\<close>, so the loop goes on two arguments
  later. Every call of \<open>weechat_shutdown\<close> is followed by the rest of the loop, as in the
  source: that \<open>weechat_shutdown\<close> does not return there is a property of
  \<open>weechat_shutdown\<close>, not of the loop.
\<close>

fun parse_loop :: "env \<Rightarrow> string \<Rightarrow> string list \<Rightarrow> world \<Rightarrow> outcome" where
  "parse_loop env argv0 [] w = Returns w"
| "parse_loop env argv0 (a # rest) w =
     (if a = ''-c'' \<or> a = ''--colors'' then
        seq (weechat_shutdown env EXIT_SUCCESS 0
               (call env Gui_color_display_terminal_colors w))
            (parse_loop env argv0 rest)
      else if a = ''-d'' \<or> a = ''--dir'' then
        (case rest of
           v # rest' \<Rightarrow>
             seq (free_if (weechat_home w) w)
               (\<lambda>w. case strdup env v w of
                      (p, w) \<Rightarrow> parse_loop env argv0 rest' (w\<lparr>weechat_home := p\<rparr>))
         | [] \<Rightarrow>
             seq (weechat_shutdown env EXIT_FAILURE 0
                    (string_fprintf Stderr (Err_missing_argument a) w))
                 (parse_loop env argv0 rest))
      else if a = ''-h'' \<or> a = ''--help'' then
        seq (weechat_shutdown env EXIT_SUCCESS 0 (weechat_display_usage argv0 w))
            (parse_loop env argv0 rest)
      else if a = ''-l'' \<or> a = ''--license'' then
        seq (weechat_shutdown env EXIT_SUCCESS 0
               (string_fprintf Stdout Msg_license
                 (string_fprintf Stdout Msg_newline (weechat_display_copyright w))))
            (parse_loop env argv0 rest)
      else if a = ''--no-dlclose'' then
        parse_loop env argv0 rest (w\<lparr>weechat_plugin_no_dlclose := 1\<rparr>)
      else if a = ''--no-gnutls'' then
        parse_loop env argv0 rest (w\<lparr>weechat_no_gnutls := 1\<rparr>)
      else if a = ''--no-gcrypt'' then
        parse_loop env argv0 rest (w\<lparr>weechat_no_gcrypt := 1\<rparr>)
      else if a = ''-p'' \<or> a = ''--no-plugin'' then
        parse_loop env argv0 rest (w\<lparr>weechat_auto_load_plugins := 0\<rparr>)
      else if a = ''-r'' \<or> a = ''--run-command'' then
        (case rest of
           v # rest' \<Rightarrow>
             seq (free_if (weechat_startup_commands w) w)
               (\<lambda>w. case strdup env v w of
                      (p, w) \<Rightarrow> parse_loop env argv0 rest' (w\<lparr>weechat_startup_commands := p\<rparr>))
         | [] \<Rightarrow>
             seq (weechat_shutdown env EXIT_FAILURE 0
                    (string_fprintf Stderr (Err_missing_argument a) w))
                 (parse_loop env argv0 rest))
      else if a = ''--upgrade'' then
        parse_loop env argv0 rest (w\<lparr>weechat_upgrading := 1\<rparr>)
      else if a = ''-v'' \<or> a = ''--version'' then
        seq (weechat_shutdown env EXIT_SUCCESS 0
               (string_fprintf Stdout Msg_newline (string_fprintf Stdout Msg_version w)))
            (parse_loop env argv0 rest)
      else parse_loop env argv0 rest w)"

text \<open>
  \<open>argv\<close> is the list of the \<open>argc\<close> arguments; \<open>argv[argc]\<close> is \<open>NULL\<close>, so \<open>argv[0]\<close> is
  \<open>NULL\<close> exactly when the list is empty.
\<close>

definition weechat_parse_args :: "env \<Rightarrow> string list \<Rightarrow> world \<Rightarrow> outcome" where
  "weechat_parse_args env argv w =
     (case (case argv of [] \<Rightarrow> (None, w) | a0 # _ \<Rightarrow> strdup env a0 w) of
        (p, w) \<Rightarrow>
          parse_loop env (case argv of [] \<Rightarrow> [] | a0 # _ \<Rightarrow> a0) (tl argv)
            (w\<lparr>weechat_argv0 := p, weechat_upgrading := 0, weechat_home := None,
               weechat_server_cmd_line := 0, weechat_auto_load_plugins := 1,
               weechat_plugin_no_dlclose := 0\<rparr>))"

subsection \<open>\<open>weechat_set_home_path\<close> (lines 293--331)\<close>

definition weechat_set_home_path :: "env \<Rightarrow> string \<Rightarrow> world \<Rightarrow> outcome" where
  "weechat_set_home_path env home_path w =
     (let no_memory = (\<lambda>w.
            if weechat_home w = None then
              seq (weechat_shutdown env EXIT_FAILURE 0 (string_fprintf Stderr Err_no_memory w))
                  Returns
            else Returns w)
      in case home_path of
           c # path1 \<Rightarrow>
             if c = CHR ''~'' then
               (case getenv env ''HOME'' of
                  None \<Rightarrow>
                    seq (weechat_shutdown env EXIT_FAILURE 0
                           (string_fprintf Stderr Err_no_HOME w))
                        Returns
                | Some ptr_home \<Rightarrow>
                    (case strdup env (ptr_home @ path1) w of
                       (p, w) \<Rightarrow> no_memory (w\<lparr>weechat_home := p\<rparr>)))
             else
               (case strdup env home_path w of
                  (p, w) \<Rightarrow> no_memory (w\<lparr>weechat_home := p\<rparr>))
         | [] \<Rightarrow>
             (case strdup env home_path w of
                (p, w) \<Rightarrow> no_memory (w\<lparr>weechat_home := p\<rparr>)))"

subsection \<open>\<open>weechat_create_home_dir\<close> (lines 340--397)\<close>

text \<open>
  Each \<open>return\<close> after a \<open>weechat_shutdown\<close> ends the function. \<open>stat\<close> and \<open>util_mkdir\<close>
  read the text \<open>weechat_home\<close> points to; a null or dangling pointer there is undefined
  behaviour.
\<close>

definition create_dir :: "env \<Rightarrow> world \<Rightarrow> outcome" where
  "create_dir env w =
     (case cstr w (weechat_home w) of
        None \<Rightarrow> Undefined_behaviour w
      | Some path \<Rightarrow>
          (let w = call env (Stat path) w in
           if stat_isdir env path = Some False then
             seq (weechat_shutdown env EXIT_FAILURE 0
                    (string_fprintf Stderr (Err_not_a_directory path) w))
                 Returns
           else
             (let w = call env (Util_mkdir path 493) w in
              if \<not> util_mkdir_ok env path then
                seq (weechat_shutdown env EXIT_FAILURE 0
                       (string_fprintf Stderr (Err_cannot_create path) w))
                    Returns
              else Returns w)))"

definition weechat_create_home_dir :: "env \<Rightarrow> world \<Rightarrow> outcome" where
  "weechat_create_home_dir env w =
     seq (if weechat_home w = None then
            (case getenv env ''WEECHAT_HOME'' of
               None \<Rightarrow> Returns w
             | Some ptr_weechat_home \<Rightarrow>
                 if ptr_weechat_home \<noteq> [] then weechat_set_home_path env ptr_weechat_home w
                 else Returns w)
          else Returns w)
       (\<lambda>w. if weechat_home w = None then
              (if config_weechat_home env = [] then
                 seq (weechat_shutdown env EXIT_FAILURE 0
                        (string_fprintf Stderr Err_home_undefined w))
                     Returns
               else seq (weechat_set_home_path env (config_weechat_home env) w)
                        (create_dir env))
            else create_dir env w)"

subsection \<open>Startup message and checks (lines 403--545)\<close>

definition weechat_startup_message :: "env \<Rightarrow> world \<Rightarrow> world" where
  "weechat_startup_message env w =
     (let w = (if config_startup_display_logo env then gui_chat_printf Chat_logo w else w);
          w = (if config_startup_display_version env
               then call env Command_version_display w else w);
          w = (if config_startup_display_logo env \<or> config_startup_display_version env
               then gui_chat_printf Chat_separator w else w)
      in if first_start env \<noteq> 0 then
           gui_chat_printf Chat_empty
             (gui_chat_printf Chat_dashes
               (gui_chat_printf Chat_empty
                 (gui_chat_printf Chat_welcome
                   (gui_chat_printf Chat_empty w))))
         else w)"

text \<open>\<open>strncmp (term, "screen", 6) == 0\<close> holds when \<open>term\<close> starts with \<open>screen\<close>.\<close>

definition weechat_term_check :: "env \<Rightarrow> world \<Rightarrow> world" where
  "weechat_term_check env w =
     (let term = getenv env ''TERM'';
          sty = getenv env ''STY'';
          tmux = getenv env ''TMUX'';
          is_screen = (case sty of None \<Rightarrow> False | Some s \<Rightarrow> s \<noteq> []);
          is_tmux = (case tmux of None \<Rightarrow> False | Some s \<Rightarrow> s \<noteq> [])
      in if is_screen \<or> is_tmux then
           (let is_term_ok =
                  (if is_screen then
                     (case term of None \<Rightarrow> False | Some t \<Rightarrow> take 6 t = ''screen'')
                   else if is_tmux then
                     (case term of None \<Rightarrow> False
                      | Some t \<Rightarrow> take 6 t = ''screen'' \<or> take 4 t = ''tmux'')
                   else False)
            in if \<not> is_term_ok then
                 gui_chat_printf (Chat_term_hint is_screen)
                   (gui_chat_printf
                      (Chat_term_warning is_screen (case term of None \<Rightarrow> [] | Some t \<Rightarrow> t))
                      w)
               else w)
         else w)"

definition weechat_locale_check :: "world \<Rightarrow> world" where
  "weechat_locale_check w =
     (if weechat_locale_ok w = 0 then gui_chat_printf Chat_locale_warning w else w)"

subsection \<open>The signal handlers (lines 551--575)\<close>

definition weechat_sighup :: "world \<Rightarrow> world" where
  "weechat_sighup w = w\<lparr>weechat_quit_signal := signo SIGHUP\<rparr>"

definition weechat_sigquit :: "world \<Rightarrow> world" where
  "weechat_sigquit w = w\<lparr>weechat_quit_signal := signo SIGQUIT\<rparr>"

definition weechat_sigterm :: "world \<Rightarrow> world" where
  "weechat_sigterm w = w\<lparr>weechat_quit_signal := signo SIGTERM\<rparr>"

text \<open>
  Modelled from the spec: \<open>util_catch_signal\<close> (wee-util.c, not in the sources) installs
  the given disposition for the signal; a later installation for the same signal
  replaces the earlier one, as \<open>sigaction\<close> does.
\<close>

definition util_catch_signal :: "env \<Rightarrow> signal \<Rightarrow> handler \<Rightarrow> world \<Rightarrow> world" where
  "util_catch_signal env s h w =
     (call env (Util_catch_signal s h) w)\<lparr>sigtable := (sigtable w)(s := h)\<rparr>"

text \<open>
  Modelled from the spec: the delivery of a signal by the operating system. An ignored
  signal has no effect, a caught one runs its handler; \<open>debug_sigsegv\<close> (wee-debug.c, not
  in the sources) writes a crash dump and the process does not return to normal
  execution; the default disposition of these six signals ends the process.
\<close>

definition deliver :: "env \<Rightarrow> signal \<Rightarrow> world \<Rightarrow> outcome" where
  "deliver env s w =
     (case sigtable w s of
        SIG_DFL \<Rightarrow> Killed s w
      | SIG_IGN \<Rightarrow> Returns w
      | Debug_sigsegv \<Rightarrow> Aborts (call env Debug_sigsegv_dump w)
      | Weechat_sighup \<Rightarrow> Returns (weechat_sighup w)
      | Weechat_sigquit \<Rightarrow> Returns (weechat_sigquit w)
      | Weechat_sigterm \<Rightarrow> Returns (weechat_sigterm w))"

subsection \<open>\<open>weechat_init\<close> (lines 607--677)\<close>

text \<open>Lines 610--625: start time, locale, character set.\<close>

definition init_locale :: "env \<Rightarrow> world \<Rightarrow> world" where
  "init_locale env w =
     (let w = (calls env [Time, Gettimeofday] w)\<lparr>weechat_first_start_time := now env\<rparr>;
          w = (call env Setlocale w)\<lparr>weechat_locale_ok := (if setlocale_ok env then 1 else 0)\<rparr>;
          w = (if enable_nls env
               then calls env [Bindtextdomain, Bind_textdomain_codeset, Textdomain] w
               else w)
      in case strdup env (codeset env) w of
           (p, w) \<Rightarrow> call env Utf8_init (w\<lparr>weechat_local_charset := p\<rparr>))"

text \<open>Lines 627--634: the seven installations, in the order of the source.\<close>

definition catch_signals :: "env \<Rightarrow> world \<Rightarrow> world" where
  "catch_signals env w =
     util_catch_signal env SIGTERM Weechat_sigterm
       (util_catch_signal env SIGQUIT Weechat_sigquit
         (util_catch_signal env SIGHUP Weechat_sighup
           (util_catch_signal env SIGSEGV Debug_sigsegv
             (util_catch_signal env SIGPIPE SIG_IGN
               (util_catch_signal env SIGQUIT SIG_IGN
                 (util_catch_signal env SIGINT SIG_IGN w))))))"

text \<open>
  Modelled from the spec: \<open>upgrade_weechat_end\<close> (wee-upgrade.c, not in the sources; the
  source's comment: ``remove .upgrade files + signal'') deletes the handoff files.
\<close>

definition upgrade_weechat_end :: "env \<Rightarrow> world \<Rightarrow> world" where
  "upgrade_weechat_end env w = (call env Upgrade_weechat_end w)\<lparr>upgrade_files := False\<rparr>"

text \<open>Lines 651--676: everything after the home directory exists. Nothing here is fatal.\<close>

definition init_after_home :: "env \<Rightarrow> string list \<Rightarrow> bool \<Rightarrow> world \<Rightarrow> world" where
  "init_after_home env argv gui_init_cb w =
     (let w = calls env [Log_init, Plugin_api_init, Secure_read, Config_weechat_read,
                         Network_init_gnutls] w;
          w = (if gui_init_cb then call env Gui_init_cb w else w);
          w = (if weechat_upgrading w \<noteq> 0
               then (call env Upgrade_weechat_load w)
                      \<lparr>weechat_upgrade_count := weechat_upgrade_count w + 1\<rparr>
               else w);
          w = weechat_startup_message env w;
          w = gui_chat_print_lines_waiting_buffer None w;
          w = weechat_term_check env w;
          w = weechat_locale_check w;
          w = call env (Command_startup 0) w;
          w = call env (Plugin_init (weechat_auto_load_plugins w) argv) w;
          w = call env (Command_startup 1) w;
          w = (if weechat_upgrading w = 0 then call env Gui_layout_window_apply w else w)
      in if weechat_upgrading w \<noteq> 0 then upgrade_weechat_end env w else w)"

text \<open>
  \<open>gui_init_cb\<close> is a function pointer; the argument says whether it is non-null.
\<close>

definition weechat_init :: "env \<Rightarrow> string list \<Rightarrow> bool \<Rightarrow> world \<Rightarrow> outcome" where
  "weechat_init env argv gui_init_cb w =
     (let w = init_locale env w;
          w = catch_signals env w;
          w = calls env [Hdata_init, Hook_init, Debug_init, Gui_color_init, Gui_chat_init,
                         Command_init, Completion_init, Gui_key_init, Network_init_gcrypt] w;
          w = call env Secure_init w
      in seq (if \<not> secure_init_ok env then weechat_shutdown env EXIT_FAILURE 0 w
              else Returns w)
        (\<lambda>w. seq (let w = call env Config_weechat_init w
                  in if \<not> config_weechat_init_ok env
                     then weechat_shutdown env EXIT_FAILURE 0 w
                     else Returns w)
        (\<lambda>w. seq (weechat_parse_args env argv w)
        (\<lambda>w. seq (weechat_create_home_dir env w)
        (\<lambda>w. Returns (init_after_home env argv gui_init_cb w))))))"

subsection \<open>\<open>weechat_end\<close> (lines 683--705)\<close>

definition weechat_end :: "env \<Rightarrow> bool \<Rightarrow> world \<Rightarrow> outcome" where
  "weechat_end env gui_end_cb w =
     (let w = calls env [Gui_layout_store_on_exit, Plugin_end] w;
          w = (if config_look_save_config_on_exit env
               then call env Config_weechat_write w else w);
          w = call env Secure_write w;
          w = (if gui_end_cb then call env (Gui_end_cb 1) w else w);
          w = calls env [Proxy_free_all, Config_weechat_free, Secure_free,
                         Config_file_free_all, Gui_key_end, Unhook_all, Hdata_end,
                         Secure_end, String_end] w
      in weechat_shutdown env (- 1) 0 w)"

section \<open>Notions used to state the properties\<close>

text \<open>The addresses held by a list of pointers (the null pointers left out).\<close>

fun addrs :: "ptr list \<Rightarrow> nat list" where
  "addrs [] = []"
| "addrs (None # ps) = addrs ps"
| "addrs (Some a # ps) = a # addrs ps"

text \<open>A pointer that may be given to \<open>free\<close>: null, or the address of a live block.\<close>

definition live :: "world \<Rightarrow> ptr \<Rightarrow> bool" where
  "live w p = (case p of None \<Rightarrow> True | Some a \<Rightarrow> heap w a \<noteq> None)"

text \<open>
  The three strings \<open>weechat_shutdown\<close> releases are null or live, and no two of them
  are the same block. This holds whenever the file calls \<open>weechat_shutdown\<close> for the first
  time in a process.
\<close>

definition strings_valid :: "world \<Rightarrow> bool" where
  "strings_valid w =
     (live w (weechat_argv0 w) \<and> live w (weechat_home w) \<and> live w (weechat_local_charset w)
      \<and> distinct (addrs [weechat_argv0 w, weechat_home w, weechat_local_charset w]))"

text \<open>The state in which a run ended, however it ended.\<close>

fun world_of :: "outcome \<Rightarrow> world" where
  "world_of (Returns w) = w"
| "world_of (Exits c w) = w"
| "world_of (Aborts w) = w"
| "world_of (Killed s w) = w"
| "world_of (Undefined_behaviour w) = w"

fun is_free :: "event \<Rightarrow> bool" where
  "is_free (Free a) = True"
| "is_free e = False"

text \<open>How \<open>weechat_shutdown\<close> ends once the teardown is done (lines 597--600).\<close>

definition finish :: "int \<Rightarrow> int \<Rightarrow> world \<Rightarrow> outcome" where
  "finish return_code crash w =
     (if crash \<noteq> 0 then Aborts w
      else if return_code \<ge> 0 then Exits return_code w
      else Returns w)"

text \<open>The state the teardown of lines 584--595 leaves, when the three strings are valid.\<close>

definition teardown :: "env \<Rightarrow> world \<Rightarrow> world" where
  "teardown env w =
     w\<lparr>heap := (\<lambda>a. if a \<in> set (addrs [weechat_argv0 w, weechat_home w, weechat_local_charset w])
                    then None else heap w a),
       lines_waiting := ext_lines env Log_close @ ext_lines env Network_end @ ext_lines env Debug_end,
       trace := trace w @ Call (Gui_chat_print_lines_waiting_buffer (Some Stderr))
                  # map (Line_out (Some Stderr)) (lines_waiting w)
                  @ [Call Log_close, Call Network_end, Call Debug_end]
                  @ map Free (addrs [weechat_argv0 w, weechat_home w, weechat_local_charset w])\<rparr>"

subsection \<open>Events and frames\<close>

text \<open>
  The events \<open>weechat_parse_args\<close> can produce (output, the terminal colour table, and
  the teardown of \<open>weechat_shutdown\<close>), and those of \<open>weechat_create_home_dir\<close>.
\<close>

fun parse_event :: "event \<Rightarrow> bool" where
  "parse_event (Call c) =
     (c = Gui_color_display_terminal_colors \<or>
      c = Gui_chat_print_lines_waiting_buffer (Some Stderr) \<or>
      c = Log_close \<or> c = Network_end \<or> c = Debug_end)"
| "parse_event (Fprintf f m) = True"
| "parse_event (Chat_printf m) = False"
| "parse_event (Line_out f s) = (f = Some Stderr)"
| "parse_event (Free a) = True"

fun home_event :: "event \<Rightarrow> bool" where
  "home_event (Call (Stat p)) = True"
| "home_event (Call (Util_mkdir p m)) = True"
| "home_event e = parse_event e"

text \<open>
  \<open>frame P w w'\<close>: from \<open>w\<close> to \<open>w'\<close> the signal table, the pending quit signal, the
  upgrade counter, the handoff files and the locale flag are unchanged, and the trace
  has grown by events that satisfy \<open>P\<close>.
\<close>

definition frame :: "(event \<Rightarrow> bool) \<Rightarrow> world \<Rightarrow> world \<Rightarrow> bool" where
  "frame P w w' =
     (sigtable w' = sigtable w \<and> weechat_quit_signal w' = weechat_quit_signal w \<and>
      weechat_upgrade_count w' = weechat_upgrade_count w \<and>
      upgrade_files w' = upgrade_files w \<and> weechat_locale_ok w' = weechat_locale_ok w \<and>
      (\<exists>evs. trace w' = trace w @ evs \<and> list_all P evs))"

subsection \<open>The options by kind\<close>

text \<open>
  The branches of the loop of \<open>weechat_parse_args\<close>, grouped: the informational options,
  the two options that take a value, and the rest (switches and unknown arguments).
\<close>

definition info_flag :: "string \<Rightarrow> bool" where
  "info_flag a = (a = ''-c'' \<or> a = ''--colors'' \<or> a = ''-h'' \<or> a = ''--help'' \<or>
                  a = ''-l'' \<or> a = ''--license'' \<or> a = ''-v'' \<or> a = ''--version'')"

definition dir_flag :: "string \<Rightarrow> bool" where
  "dir_flag a = (a = ''-d'' \<or> a = ''--dir'')"

definition run_flag :: "string \<Rightarrow> bool" where
  "run_flag a = (a = ''-r'' \<or> a = ''--run-command'')"

definition info_print :: "env \<Rightarrow> string \<Rightarrow> string \<Rightarrow> world \<Rightarrow> world" where
  "info_print env argv0 a w =
     (if a = ''-c'' \<or> a = ''--colors'' then call env Gui_color_display_terminal_colors w
      else if a = ''-h'' \<or> a = ''--help'' then weechat_display_usage argv0 w
      else if a = ''-l'' \<or> a = ''--license'' then
        string_fprintf Stdout Msg_license
          (string_fprintf Stdout Msg_newline (weechat_display_copyright w))
      else string_fprintf Stdout Msg_newline (string_fprintf Stdout Msg_version w))"

definition setting :: "string \<Rightarrow> world \<Rightarrow> world" where
  "setting a w =
     (if a = ''--no-dlclose'' then w\<lparr>weechat_plugin_no_dlclose := 1\<rparr>
      else if a = ''--no-gnutls'' then w\<lparr>weechat_no_gnutls := 1\<rparr>
      else if a = ''--no-gcrypt'' then w\<lparr>weechat_no_gcrypt := 1\<rparr>
      else if a = ''-p'' \<or> a = ''--no-plugin'' then w\<lparr>weechat_auto_load_plugins := 0\<rparr>
      else if a = ''--upgrade'' then w\<lparr>weechat_upgrading := 1\<rparr>
      else w)"

subsection \<open>The heap invariant and the scan of the arguments\<close>

text \<open>
  The invariant of the strings the file owns: every live block was allocated, each of
  the four string pointers is null or live, and no two of them share a block.
\<close>

definition heap_inv :: "world \<Rightarrow> bool" where
  "heap_inv w =
     ((\<forall>a. heap w a \<noteq> None \<longrightarrow> a \<le> allocs w) \<and>
      live w (weechat_argv0 w) \<and> live w (weechat_home w) \<and>
      live w (weechat_local_charset w) \<and> live w (weechat_startup_commands w) \<and>
      distinct (addrs [weechat_argv0 w, weechat_home w, weechat_local_charset w,
                       weechat_startup_commands w]))"

text \<open>
  What the loop of \<open>weechat_parse_args\<close> meets first: the end of the arguments, an
  informational option, or a value option that is the last argument. The value of a
  value option is skipped, whatever it is.
\<close>

datatype scan_result = Parsed | Info string | Missing string

fun scan :: "string list \<Rightarrow> scan_result" where
  "scan [] = Parsed"
| "scan (a # rest) =
     (if info_flag a then Info a
      else if dir_flag a \<or> run_flag a then
        (case rest of [] \<Rightarrow> Missing a | v # rest' \<Rightarrow> scan rest')
      else scan rest)"

text \<open>The value of the last \<open>-d\<close>/\<open>--dir\<close> option the loop meets, if it meets one.\<close>

fun dir_arg :: "string list \<Rightarrow> string option" where
  "dir_arg [] = None"
| "dir_arg (a # rest) =
     (if dir_flag a then
        (case rest of [] \<Rightarrow> None
         | v # rest' \<Rightarrow> (case dir_arg rest' of None \<Rightarrow> Some v | Some d \<Rightarrow> Some d))
      else if run_flag a then
        (case rest of [] \<Rightarrow> None | v # rest' \<Rightarrow> dir_arg rest')
      else dir_arg rest)"

text \<open>The output that tells which informational option was served.\<close>

definition info_event :: "string \<Rightarrow> string \<Rightarrow> event" where
  "info_event argv0 a =
     (if a = ''-c'' \<or> a = ''--colors'' then Call Gui_color_display_terminal_colors
      else if a = ''-h'' \<or> a = ''--help'' then Fprintf Stdout (Msg_usage argv0)
      else if a = ''-l'' \<or> a = ''--license'' then Fprintf Stdout Msg_license
      else Fprintf Stdout Msg_version)"

subsection \<open>The home directory as the specification describes it\<close>

text \<open>
  Tilde expansion in the specification's words: a leading \<open>~\<close> is replaced with the
  value of \<open>HOME\<close>; it is fatal if \<open>HOME\<close> is unset while \<open>~\<close> is used.
\<close>

definition expand_home :: "env \<Rightarrow> string \<Rightarrow> message + string" where
  "expand_home env p =
     (case p of
        [] \<Rightarrow> Inr p
      | c # rest \<Rightarrow>
          if c = CHR ''~'' then
            (case getenv env ''HOME'' of None \<Rightarrow> Inl Err_no_HOME | Some h \<Rightarrow> Inr (h @ rest))
          else Inr p)"

text \<open>
  The resolution in priority order: the value of \<open>-d\<close>/\<open>--dir\<close> if given, taken as it
  is; else a non-empty \<open>WEECHAT_HOME\<close>, expanded; else the compiled-in default, expanded,
  which is fatal when empty.
\<close>

definition resolve_home :: "env \<Rightarrow> string option \<Rightarrow> message + string" where
  "resolve_home env dir =
     (case dir of
        Some d \<Rightarrow> Inr d
      | None \<Rightarrow>
          (case getenv env ''WEECHAT_HOME'' of
             Some p \<Rightarrow>
               if p \<noteq> [] then expand_home env p
               else if config_weechat_home env = [] then Inl Err_home_undefined
               else expand_home env (config_weechat_home env)
           | None \<Rightarrow>
               if config_weechat_home env = [] then Inl Err_home_undefined
               else expand_home env (config_weechat_home env)))"

text \<open>What happens once the path \<open>d\<close> is resolved: the checks of lines 373--396.\<close>

definition dir_failure :: "env \<Rightarrow> string \<Rightarrow> message option" where
  "dir_failure env d =
     (if stat_isdir env d = Some False then Some (Err_not_a_directory d)
      else if \<not> util_mkdir_ok env d then Some (Err_cannot_create d)
      else None)"

text \<open>A run that ended fatally with the diagnostic \<open>m\<close> on the error stream.\<close>

definition fatal_with :: "outcome \<Rightarrow> message \<Rightarrow> bool" where
  "fatal_with r m =
     (\<exists>w'. r = Exits EXIT_FAILURE w' \<and> Fprintf Stderr m \<in> set (trace w'))"

text \<open>A run that returned with \<open>weechat_home\<close> pointing to the text \<open>d\<close>.\<close>

definition home_is :: "outcome \<Rightarrow> string \<Rightarrow> bool" where
  "home_is r d = (\<exists>w'. r = Returns w' \<and> heap_inv w' \<and> cstr w' (weechat_home w') = Some d)"

definition resolves :: "env \<Rightarrow> string option \<Rightarrow> outcome \<Rightarrow> bool" where
  "resolves env dir r =
     (case resolve_home env dir of
        Inl m \<Rightarrow> fatal_with r m
      | Inr d \<Rightarrow>
          (case dir_failure env d of
             Some m \<Rightarrow> fatal_with r m
           | None \<Rightarrow> home_is r d))"

text \<open>
  The state in which \<open>weechat_init\<close> calls \<open>weechat_parse_args\<close> when \<open>secure_init\<close> and
  \<open>config_weechat_init\<close> succeeded (lines 610--648).
\<close>

definition before_args :: "env \<Rightarrow> world \<Rightarrow> world" where
  "before_args env w =
     call env Config_weechat_init
       (call env Secure_init
         (calls env [Hdata_init, Hook_init, Debug_init, Gui_color_init, Gui_chat_init,
                     Command_init, Completion_init, Gui_key_init, Network_init_gcrypt]
           (catch_signals env (init_locale env w))))"

subsection \<open>The trace of \<open>weechat_init\<close>\<close>

text \<open>\<open>out evs ls\<close>: the events \<open>evs\<close> happen and the chat lines \<open>ls\<close> are left waiting.\<close>

definition out :: "event list \<Rightarrow> string list \<Rightarrow> world \<Rightarrow> world" where
  "out evs ls w = w\<lparr>trace := trace w @ evs, lines_waiting := lines_waiting w @ ls\<rparr>"

text \<open>What \<open>weechat_startup_message\<close>, \<open>weechat_term_check\<close> and \<open>weechat_locale_check\<close> print.\<close>

definition banner_events :: "env \<Rightarrow> event list" where
  "banner_events env =
     (if config_startup_display_logo env then [Chat_printf Chat_logo] else []) @
     (if config_startup_display_version env then [Call Command_version_display] else []) @
     (if config_startup_display_logo env \<or> config_startup_display_version env
      then [Chat_printf Chat_separator] else []) @
     (if first_start env \<noteq> 0
      then [Chat_printf Chat_empty, Chat_printf Chat_welcome, Chat_printf Chat_empty,
            Chat_printf Chat_dashes, Chat_printf Chat_empty]
      else [])"

definition banner_lines :: "env \<Rightarrow> string list" where
  "banner_lines env =
     (if config_startup_display_version env then ext_lines env Command_version_display else [])"

definition term_events :: "env \<Rightarrow> event list" where
  "term_events env = trace (weechat_term_check env initial_world)"

definition locale_events :: "world \<Rightarrow> event list" where
  "locale_events w = (if weechat_locale_ok w = 0 then [Chat_printf Chat_locale_warning] else [])"

text \<open>The events of lines 610--648 when \<open>secure_init\<close> and \<open>config_weechat_init\<close> succeed.\<close>

definition before_args_events :: "env \<Rightarrow> event list" where
  "before_args_events env =
     [Call Time, Call Gettimeofday, Call Setlocale] @
     (if enable_nls env
      then [Call Bindtextdomain, Call Bind_textdomain_codeset, Call Textdomain] else []) @
     [Call Utf8_init,
      Call (Util_catch_signal SIGINT SIG_IGN), Call (Util_catch_signal SIGQUIT SIG_IGN),
      Call (Util_catch_signal SIGPIPE SIG_IGN), Call (Util_catch_signal SIGSEGV Debug_sigsegv),
      Call (Util_catch_signal SIGHUP Weechat_sighup),
      Call (Util_catch_signal SIGQUIT Weechat_sigquit),
      Call (Util_catch_signal SIGTERM Weechat_sigterm),
      Call Hdata_init, Call Hook_init, Call Debug_init, Call Gui_color_init,
      Call Gui_chat_init, Call Command_init, Call Completion_init, Call Gui_key_init,
      Call Network_init_gcrypt, Call Secure_init, Call Config_weechat_init]"

subsection \<open>Stages of \<open>weechat_init\<close>\<close>

text \<open>The state in which \<open>weechat_init\<close> tests the result of \<open>secure_init\<close> (line 645).\<close>

definition at_secure_init :: "env \<Rightarrow> world \<Rightarrow> world" where
  "at_secure_init env w =
     call env Secure_init
       (calls env [Hdata_init, Hook_init, Debug_init, Gui_color_init, Gui_chat_init,
                   Command_init, Completion_init, Gui_key_init, Network_init_gcrypt]
         (catch_signals env (init_locale env w)))"

text \<open>The state in which the loop of \<open>weechat_parse_args\<close> starts (lines 176--181).\<close>

definition args_start :: "env \<Rightarrow> string list \<Rightarrow> world \<Rightarrow> world" where
  "args_start env argv w =
     (case argv of [] \<Rightarrow> w | a0 # _ \<Rightarrow> snd (strdup env a0 w))
     \<lparr>weechat_argv0 := (case argv of [] \<Rightarrow> None | a0 # _ \<Rightarrow> fst (strdup env a0 w)),
      weechat_upgrading := 0, weechat_home := None, weechat_server_cmd_line := 0,
      weechat_auto_load_plugins := 1, weechat_plugin_no_dlclose := 0\<rparr>"

definition argv0_of :: "string list \<Rightarrow> string" where
  "argv0_of argv = (case argv of [] \<Rightarrow> [] | a0 # _ \<Rightarrow> a0)"

text \<open>The calls of lines 610--648.\<close>

fun early_call :: "ext_call \<Rightarrow> bool" where
  "early_call Time = True"
| "early_call Gettimeofday = True"
| "early_call Setlocale = True"
| "early_call Bindtextdomain = True"
| "early_call Bind_textdomain_codeset = True"
| "early_call Textdomain = True"
| "early_call Utf8_init = True"
| "early_call (Util_catch_signal s h) = True"
| "early_call Hdata_init = True"
| "early_call Hook_init = True"
| "early_call Debug_init = True"
| "early_call Gui_color_init = True"
| "early_call Gui_chat_init = True"
| "early_call Command_init = True"
| "early_call Completion_init = True"
| "early_call Gui_key_init = True"
| "early_call Network_init_gcrypt = True"
| "early_call Secure_init = True"
| "early_call Config_weechat_init = True"
| "early_call c = False"

text \<open>The events before line 651: those of lines 610--648, of the parser and of the
  home directory.\<close>

fun early_event :: "event \<Rightarrow> bool" where
  "early_event (Call c) = (early_call c \<or> home_event (Call c))"
| "early_event e = home_event e"

subsection \<open>Notions of the claims\<close>

text \<open>The state of a process at its start; \<open>h\<close> says whether handoff files of an upgrade
  exist in the home directory.\<close>

definition process_start :: "bool \<Rightarrow> world" where
  "process_start h = initial_world\<lparr>upgrade_files := h\<rparr>"

text \<open>The code with which the process ended through \<open>exit\<close>, and whether the run returned.\<close>

fun exit_code :: "outcome \<Rightarrow> int option" where
  "exit_code (Exits c w) = Some c"
| "exit_code r = None"

fun returned :: "outcome \<Rightarrow> bool" where
  "returned (Returns w) = True"
| "returned r = False"

fun undefined_behaviour :: "outcome \<Rightarrow> bool" where
  "undefined_behaviour (Undefined_behaviour w) = True"
| "undefined_behaviour r = False"

text \<open>The steps of \<open>weechat_init\<close> that follow \<open>weechat_parse_args\<close> (lines 650--676).\<close>

fun after_args_call :: "ext_call \<Rightarrow> bool" where
  "after_args_call (Stat p) = True"
| "after_args_call (Util_mkdir p m) = True"
| "after_args_call Log_init = True"
| "after_args_call Plugin_api_init = True"
| "after_args_call Secure_read = True"
| "after_args_call Config_weechat_read = True"
| "after_args_call Network_init_gnutls = True"
| "after_args_call Gui_init_cb = True"
| "after_args_call Upgrade_weechat_load = True"
| "after_args_call Command_version_display = True"
| "after_args_call (Command_startup n) = True"
| "after_args_call (Plugin_init n argv) = True"
| "after_args_call Gui_layout_window_apply = True"
| "after_args_call Upgrade_weechat_end = True"
| "after_args_call (Gui_chat_print_lines_waiting_buffer f) = (f = None)"
| "after_args_call c = False"

fun after_args_step :: "event \<Rightarrow> bool" where
  "after_args_step (Call c) = after_args_call c"
| "after_args_step (Chat_printf m) = True"
| "after_args_step (Line_out f s) = (f = None)"
| "after_args_step e = False"

text \<open>
  The initializer steps the specification names: registry init (\<open>hdata_init\<close>,
  \<open>hook_init\<close>), crypto init (\<open>network_init_gcrypt\<close>, \<open>network_init_gnutls\<close>), secure-store
  init, configuration-store init, plugin init and UI init.
\<close>

fun initializer_step :: "event \<Rightarrow> bool" where
  "initializer_step (Call Hdata_init) = True"
| "initializer_step (Call Hook_init) = True"
| "initializer_step (Call Network_init_gcrypt) = True"
| "initializer_step (Call Network_init_gnutls) = True"
| "initializer_step (Call Secure_init) = True"
| "initializer_step (Call Config_weechat_init) = True"
| "initializer_step (Call (Plugin_init n argv)) = True"
| "initializer_step (Call Gui_init_cb) = True"
| "initializer_step e = False"

text \<open>The text \<open>weechat_home\<close> points to in the state in which a run ended.\<close>

definition home_of :: "outcome \<Rightarrow> string option" where
  "home_of r = cstr (world_of r) (weechat_home (world_of r))"

text \<open>How often an event occurs in a trace, and the events before its first occurrence.\<close>

definition occurrences :: "event \<Rightarrow> event list \<Rightarrow> nat" where
  "occurrences e tr = length (filter (\<lambda>x. x = e) tr)"

definition before :: "event \<Rightarrow> event list \<Rightarrow> event list" where
  "before e tr = takeWhile (\<lambda>x. x \<noteq> e) tr"

text \<open>What the startup message and the warnings display: chat lines and the version.\<close>

fun banner_event :: "event \<Rightarrow> bool" where
  "banner_event (Chat_printf m) = True"
| "banner_event (Call c) = (c = Command_version_display)"
| "banner_event e = False"

text \<open>What lines 665--668 display: the banner, the flushed lines, the warnings.\<close>

fun display_event :: "event \<Rightarrow> bool" where
  "display_event (Chat_printf m) = True"
| "display_event (Call c) =
     (c = Command_version_display \<or> c = Gui_chat_print_lines_waiting_buffer None)"
| "display_event (Line_out f s) = (f = None)"
| "display_event e = False"

text \<open>The diagnostics of the file, and what reaches the error stream.\<close>

fun is_error :: "message \<Rightarrow> bool" where
  "is_error (Err_missing_argument a) = True"
| "is_error Err_no_HOME = True"
| "is_error Err_no_memory = True"
| "is_error Err_home_undefined = True"
| "is_error (Err_not_a_directory p) = True"
| "is_error (Err_cannot_create p) = True"
| "is_error m = False"

fun stderr_out :: "event \<Rightarrow> bool" where
  "stderr_out (Fprintf f m) = (f = Stderr)"
| "stderr_out (Line_out f s) = (f = Some Stderr)"
| "stderr_out e = False"

text \<open>A run that, if it ended through \<open>exit\<close>, ended with the failure code after a
  diagnostic was printed to the error stream.\<close>

definition loud :: "outcome \<Rightarrow> bool" where
  "loud r =
     (\<forall>c w'. r = Exits c w' \<longrightarrow>
        c = EXIT_FAILURE \<and> (\<exists>m. is_error m \<and> Fprintf Stderr m \<in> set (trace w')))"

subsection \<open>Concrete inputs\<close>

text \<open>
  An environment in which nothing fails: \<open>HOME\<close> is \<open>/tmp/u\<close>, \<open>WEECHAT_HOME\<close> is not set, the
  home directory does not exist yet and can be created, no collaborator leaves a line
  waiting.
\<close>

definition env0 :: env where
  "env0 =
     \<lparr> getenv = map_of [(''HOME'', ''/tmp/u'')], alloc_fails = (\<lambda>_. False), now = 0,
       setlocale_ok = True, enable_nls = True, codeset = ''UTF-8'',
       secure_init_ok = True, config_weechat_init_ok = True,
       config_weechat_home = ''~/.weechat'', stat_isdir = (\<lambda>_. None),
       util_mkdir_ok = (\<lambda>_. True), first_start = 0, upgrade_load_ok = True,
       config_startup_display_logo = True, config_startup_display_version = True,
       config_look_save_config_on_exit = True, ext_lines = (\<lambda>_. []) \<rparr>"

text \<open>A state in which only the home path has been allocated.\<close>

definition world1 :: world where
  "world1 = initial_world\<lparr>weechat_home := Some 1, heap := [1 \<mapsto> ''/tmp/h''], allocs := 1\<rparr>"

text \<open>As \<open>env0\<close>, with \<open>WEECHAT_HOME\<close> set to \<open>~/.x\<close>.\<close>

definition env1 :: env where
  "env1 = env0\<lparr>getenv := map_of [(''HOME'', ''/tmp/u''), (''WEECHAT_HOME'', ''~/.x'')]\<rparr>"

text \<open>As \<open>env0\<close>, but \<open>upgrade_weechat_load\<close> fails to restore the session.\<close>

definition env_fail :: env where
  "env_fail = env0\<lparr>upgrade_load_ok := False\<rparr>"

text \<open>As \<open>env0\<close>, but \<open>secure_init\<close> fails.\<close>

definition env_secure_fails :: env where
  "env_secure_fails = env0\<lparr>secure_init_ok := False\<rparr>"

section \<open>Basic facts\<close>

lemma seq_simps [simp]:
  "seq (Returns w) f = f w"
  "seq (Exits c w) f = Exits c w"
  "seq (Aborts w) f = Aborts w"
  "seq (Killed s w) f = Killed s w"
  "seq (Undefined_behaviour w) f = Undefined_behaviour w"
  by (simp_all add: seq_def)

subsection \<open>\<open>weechat_shutdown\<close> on valid strings\<close>

lemma shutdown_valid:
  assumes "strings_valid w"
  shows "weechat_shutdown env return_code crash w = finish return_code crash (teardown env w)"
  using assms
  apply (cases "weechat_argv0 w"; cases "weechat_home w"; cases "weechat_local_charset w")
  apply (auto simp add: strings_valid_def live_def weechat_shutdown_def finish_def teardown_def
      free_if_def free_block_def calls_def call_def gui_chat_print_lines_waiting_buffer_def
      emit_def fun_eq_iff intro!: world.equality)
  done

lemma strings_valid_world1: "strings_valid world1"
  by (simp add: strings_valid_def world1_def initial_world_def live_def)

subsection \<open>Frames\<close>

lemma frame_refl [simp]: "frame P w w"
  by (simp add: frame_def)

lemma frame_trans: "frame P w w1 \<Longrightarrow> frame P w1 w2 \<Longrightarrow> frame P w w2"
  by (auto simp add: frame_def)

lemma frame_mono: "frame P w w' \<Longrightarrow> (\<And>e. P e \<Longrightarrow> Q e) \<Longrightarrow> frame Q w w'"
  by (auto simp add: frame_def list_all_iff)

lemma frame_seq:
  assumes "frame P w (world_of r)"
    and "\<And>w1. r = Returns w1 \<Longrightarrow> frame P w1 (world_of (f w1))"
  shows "frame P w (world_of (seq r f))"
  using assms by (cases r) (auto intro: frame_trans)

lemma frame_free_if: "frame parse_event w (world_of (free_if p w))"
  by (cases p) (auto simp add: free_if_def free_block_def emit_def frame_def)

lemma frame_shutdown: "frame parse_event w (world_of (weechat_shutdown env rc crash w))"
  unfolding weechat_shutdown_def
  apply (intro frame_seq)
      apply (simp add: frame_def calls_def call_def gui_chat_print_lines_waiting_buffer_def list_all_iff)
      apply auto[1]
     apply (auto simp add: frame_free_if)
  done

lemma home_event_parse: "parse_event e \<Longrightarrow> home_event e"
  by (cases e rule: home_event.cases) auto

lemma frame_strdup: "strdup env s w = (p, w') \<Longrightarrow> frame P w w'"
  by (auto simp add: strdup_def frame_def split: if_splits)

lemma frame_call [simp]: "parse_event (Call c) \<Longrightarrow> frame parse_event w0 w \<Longrightarrow> frame parse_event w0 (call env c w)"
  by (auto simp add: frame_def call_def)

lemma frame_fprintf [simp]: "frame parse_event w0 w \<Longrightarrow> frame parse_event w0 (string_fprintf f m w)"
  by (auto simp add: frame_def string_fprintf_def emit_def)

lemma frame_copyright [simp]: "frame parse_event w0 w \<Longrightarrow> frame parse_event w0 (weechat_display_copyright w)"
  by (simp add: weechat_display_copyright_def)

lemma frame_usage [simp]: "frame parse_event w0 w \<Longrightarrow> frame parse_event w0 (weechat_display_usage a w)"
  by (simp add: weechat_display_usage_def)

lemma frame_shutdown': "frame parse_event w0 w \<Longrightarrow> frame parse_event w0 (world_of (weechat_shutdown env rc crash w))"
  by (blast intro: frame_trans frame_shutdown)

lemma frame_free_if': "frame parse_event w0 w \<Longrightarrow> frame parse_event w0 (world_of (free_if p w))"
  by (blast intro: frame_trans frame_free_if)

lemma frame_seq':
  assumes "frame P w0 (world_of r)"
    and "\<And>w1. r = Returns w1 \<Longrightarrow> frame P w0 w1 \<Longrightarrow> frame P w0 (world_of (f w1))"
  shows "frame P w0 (world_of (seq r f))"
  using assms by (cases r) auto

lemma frame_upd [simp]:
  "frame P w0 (w\<lparr>weechat_home := p\<rparr>) = frame P w0 w"
  "frame P w0 (w\<lparr>weechat_startup_commands := p\<rparr>) = frame P w0 w"
  "frame P w0 (w\<lparr>weechat_plugin_no_dlclose := i\<rparr>) = frame P w0 w"
  "frame P w0 (w\<lparr>weechat_no_gnutls := i\<rparr>) = frame P w0 w"
  "frame P w0 (w\<lparr>weechat_no_gcrypt := i\<rparr>) = frame P w0 w"
  "frame P w0 (w\<lparr>weechat_auto_load_plugins := i\<rparr>) = frame P w0 w"
  "frame P w0 (w\<lparr>weechat_upgrading := i\<rparr>) = frame P w0 w"
  "frame P w0 (w\<lparr>weechat_argv0 := p\<rparr>) = frame P w0 w"
  "frame P w0 (w\<lparr>weechat_server_cmd_line := i\<rparr>) = frame P w0 w"
  by (simp_all add: frame_def)

lemma frame_strdup': "strdup env s w = (p, w') \<Longrightarrow> frame P w0 w \<Longrightarrow> frame P w0 w'"
  by (blast intro: frame_trans frame_strdup)

lemma seq_not_returns: "(\<And>w. f w \<noteq> Returns w') \<Longrightarrow> seq r f \<noteq> Returns w'"
  by (cases r) auto

lemma shutdown_not_returns:
  "0 \<le> rc \<Longrightarrow> weechat_shutdown env rc crash w \<noteq> Returns w'"
  unfolding weechat_shutdown_def
  by (intro seq_not_returns) simp

lemma seq_shutdown [simp]:
  "0 \<le> rc \<Longrightarrow> seq (weechat_shutdown env rc crash w) f = weechat_shutdown env rc crash w"
  using shutdown_not_returns [of rc env crash w]
  by (cases "weechat_shutdown env rc crash w") auto

lemma args_induct [case_names Nil Cons]:
  assumes "P []"
    and "\<And>a rest. P rest \<Longrightarrow> (\<And>v rest'. rest = v # rest' \<Longrightarrow> P rest') \<Longrightarrow> P (a # rest)"
  shows "P args"
proof (induction "length args" arbitrary: args rule: less_induct)
  case less
  show ?case
  proof (cases args)
    case Nil
    then show ?thesis using assms(1) by simp
  next
    case (Cons a rest)
    show ?thesis unfolding Cons
      by (rule assms(2)) (auto simp add: Cons intro: less)
  qed
qed

lemma parse_info:
  "info_flag a \<Longrightarrow>
   parse_loop env argv0 (a # rest) w = weechat_shutdown env 0 0 (info_print env argv0 a w)"
  unfolding info_flag_def
  by (elim disjE) (simp_all add: info_print_def EXIT_SUCCESS_def)

lemma parse_missing:
  "dir_flag a \<or> run_flag a \<Longrightarrow>
   parse_loop env argv0 [a] w =
     weechat_shutdown env 1 0 (string_fprintf Stderr (Err_missing_argument a) w)"
  unfolding dir_flag_def run_flag_def
  by (elim disjE) (simp_all add: EXIT_FAILURE_def)

lemma parse_dir:
  "dir_flag a \<Longrightarrow>
   parse_loop env argv0 (a # v # rest) w =
     seq (free_if (weechat_home w) w)
       (\<lambda>w. parse_loop env argv0 rest
              ((snd (strdup env v w))\<lparr>weechat_home := fst (strdup env v w)\<rparr>))"
  unfolding dir_flag_def
  by (elim disjE) (simp_all add: case_prod_beta)

lemma parse_run:
  "run_flag a \<Longrightarrow>
   parse_loop env argv0 (a # v # rest) w =
     seq (free_if (weechat_startup_commands w) w)
       (\<lambda>w. parse_loop env argv0 rest
              ((snd (strdup env v w))\<lparr>weechat_startup_commands := fst (strdup env v w)\<rparr>))"
  unfolding run_flag_def
  by (elim disjE) (simp_all add: case_prod_beta)

lemma parse_setting:
  "\<not> info_flag a \<Longrightarrow> \<not> dir_flag a \<Longrightarrow> \<not> run_flag a \<Longrightarrow>
   parse_loop env argv0 (a # rest) w = parse_loop env argv0 rest (setting a w)"
  by (simp add: info_flag_def dir_flag_def run_flag_def setting_def)

declare parse_loop.simps(2) [simp del]

lemma parse_cases [case_names info missing dir run setting]:
  assumes "info_flag a \<Longrightarrow> P"
    and "dir_flag a \<or> run_flag a \<Longrightarrow> rest = [] \<Longrightarrow> P"
    and "\<And>v rest'. dir_flag a \<Longrightarrow> rest = v # rest' \<Longrightarrow> P"
    and "\<And>v rest'. run_flag a \<Longrightarrow> rest = v # rest' \<Longrightarrow> P"
    and "\<not> info_flag a \<Longrightarrow> \<not> dir_flag a \<Longrightarrow> \<not> run_flag a \<Longrightarrow> P"
  shows P
  using assms by (cases rest) blast+

lemma frame_info_print [simp]:
  "frame parse_event w0 w \<Longrightarrow> frame parse_event w0 (info_print env argv0 a w)"
  by (simp add: info_print_def)

lemma frame_setting [simp]: "frame P w0 (setting a w) = frame P w0 w"
  by (simp add: setting_def)

lemma frame_parse_loop: "frame parse_event w0 w \<Longrightarrow> frame parse_event w0 (world_of (parse_loop env argv0 args w))"
proof (induction args arbitrary: w rule: args_induct)
  case Nil
  then show ?case by simp
next
  case (Cons a rest)
  show ?case
  proof (cases rule: parse_cases [where a = a and rest = rest])
    case info
    then show ?thesis by (simp add: parse_info frame_shutdown' Cons.prems)
  next
    case missing
    then show ?thesis by (simp add: parse_missing frame_shutdown' Cons.prems)
  next
    case (dir v rest')
    show ?thesis unfolding dir(2) parse_dir [OF dir(1)]
      by (intro frame_seq' frame_free_if' Cons.prems Cons.IH(2) [OF dir(2)])
         (simp add: frame_strdup' [OF surjective_pairing])
  next
    case (run v rest')
    show ?thesis unfolding run(2) parse_run [OF run(1)]
      by (intro frame_seq' frame_free_if' Cons.prems Cons.IH(2) [OF run(2)])
         (simp add: frame_strdup' [OF surjective_pairing])
  next
    case setting
    then show ?thesis by (simp add: parse_setting Cons.IH(1) Cons.prems)
  qed
qed

subsection \<open>The loop of \<open>weechat_parse_args\<close>\<close>

lemma addrs_cases:
  "addrs (p # ps) = (case p of None \<Rightarrow> addrs ps | Some a \<Rightarrow> a # addrs ps)"
  by (cases p) simp_all

lemma live_iff: "live w p = (\<forall>a. p = Some a \<longrightarrow> heap w a \<noteq> None)"
  by (cases p) (simp_all add: live_def)

lemma heap_inv_valid: "heap_inv w \<Longrightarrow> strings_valid w"
  by (cases "weechat_argv0 w"; cases "weechat_home w"; cases "weechat_local_charset w";
      cases "weechat_startup_commands w")
     (simp_all add: heap_inv_def strings_valid_def)

lemma heap_inv_setting [simp]: "heap_inv (setting a w) = heap_inv w"
  by (simp add: setting_def heap_inv_def live_iff)

lemma dir_flag_not_run: "dir_flag a \<Longrightarrow> \<not> run_flag a"
  by (auto simp add: dir_flag_def run_flag_def)

lemma dir_flag_not_info: "dir_flag a \<Longrightarrow> \<not> info_flag a"
  by (auto simp add: dir_flag_def info_flag_def)

lemma run_flag_not_info: "run_flag a \<Longrightarrow> \<not> info_flag a"
  by (auto simp add: run_flag_def info_flag_def)

lemma dir_step:
  assumes "heap_inv w"
  shows "\<exists>w1. free_if (weechat_home w) w = Returns w1 \<and>
           heap_inv ((snd (strdup env v w1))\<lparr>weechat_home := fst (strdup env v w1)\<rparr>) \<and>
           (\<not> alloc_fails env (allocs w) \<longrightarrow>
              cstr ((snd (strdup env v w1))\<lparr>weechat_home := fst (strdup env v w1)\<rparr>)
                   (fst (strdup env v w1)) = Some v)"
  using assms
  apply (cases "weechat_argv0 w"; cases "weechat_home w"; cases "weechat_local_charset w";
      cases "weechat_startup_commands w")
  apply (auto simp add: heap_inv_def live_iff free_if_def free_block_def emit_def strdup_def cstr_def)
  done

lemma run_step:
  assumes "heap_inv w"
  shows "\<exists>w1. free_if (weechat_startup_commands w) w = Returns w1 \<and>
           heap_inv ((snd (strdup env v w1))\<lparr>weechat_startup_commands := fst (strdup env v w1)\<rparr>) \<and>
           cstr ((snd (strdup env v w1))\<lparr>weechat_startup_commands := fst (strdup env v w1)\<rparr>)
                (weechat_home w1) = cstr w (weechat_home w) \<and>
           weechat_home w1 = weechat_home w"
  using assms
  apply (cases "weechat_argv0 w"; cases "weechat_home w"; cases "weechat_local_charset w";
      cases "weechat_startup_commands w")
  apply (auto simp add: heap_inv_def live_iff free_if_def free_block_def emit_def strdup_def cstr_def)
  done

lemma strings_valid_trace [simp]:
  "strings_valid (call env c w) = strings_valid w"
  "strings_valid (string_fprintf f m w) = strings_valid w"
  "strings_valid (emit e w) = strings_valid w"
  by (simp_all add: strings_valid_def live_iff call_def string_fprintf_def emit_def)

lemma strings_valid_info_print [simp]:
  "strings_valid (info_print env argv0 a w) = strings_valid w"
  by (simp add: info_print_def weechat_display_usage_def weechat_display_copyright_def)

lemma shutdown_exits:
  "strings_valid w \<Longrightarrow> 0 \<le> rc \<Longrightarrow> weechat_shutdown env rc 0 w = Exits rc (teardown env w)"
  by (simp add: shutdown_valid finish_def)

lemma trace_teardown: "set (trace w) \<subseteq> set (trace (teardown env w))"
  by (auto simp add: teardown_def)

lemma info_event_in:
  "info_flag a \<Longrightarrow> info_event argv0 a \<in> set (trace (info_print env argv0 a w))"
  by (auto simp add: info_flag_def info_event_def info_print_def call_def string_fprintf_def
      emit_def weechat_display_usage_def weechat_display_copyright_def)

lemma fatal_message:
  assumes "strings_valid w"
  shows "\<exists>w'. weechat_shutdown env 1 0 (string_fprintf Stderr m w) = Exits 1 w' \<and>
           Fprintf Stderr m \<in> set (trace w')"
proof -
  have "Fprintf Stderr m \<in> set (trace (string_fprintf Stderr m w))"
    by (simp add: string_fprintf_def emit_def)
  then have "Fprintf Stderr m \<in> set (trace (teardown env (string_fprintf Stderr m w)))"
    using trace_teardown by blast
  then show ?thesis using assms by (simp add: shutdown_exits)
qed

lemma parse_scan:
  "heap_inv w \<Longrightarrow>
   (case scan args of
      Parsed \<Rightarrow> \<exists>w'. parse_loop env argv0 args w = Returns w' \<and> heap_inv w'
    | Info a \<Rightarrow> \<exists>w'. parse_loop env argv0 args w = Exits 0 w' \<and>
                      info_event argv0 a \<in> set (trace w')
    | Missing a \<Rightarrow> \<exists>w'. parse_loop env argv0 args w = Exits 1 w' \<and>
                      Fprintf Stderr (Err_missing_argument a) \<in> set (trace w'))"
proof (induction args arbitrary: w rule: args_induct)
  case Nil
  then show ?case by simp
next
  case (Cons a rest)
  show ?case
  proof (cases rule: parse_cases [where a = a and rest = rest])
    case info
    have "info_event argv0 a \<in> set (trace (teardown env (info_print env argv0 a w)))"
      using info_event_in [OF info] trace_teardown by blast
    then show ?thesis
      using info Cons.prems by (simp add: parse_info shutdown_exits heap_inv_valid cong: scan_result.case_cong)
  next
    case missing
    then have "\<not> info_flag a"
      using dir_flag_not_info run_flag_not_info by blast
    then show ?thesis
      using missing fatal_message [OF heap_inv_valid [OF Cons.prems]]
      by (simp add: parse_missing cong: scan_result.case_cong)
  next
    case (dir v rest')
    obtain w1 where w1: "free_if (weechat_home w) w = Returns w1"
      "heap_inv ((snd (strdup env v w1))\<lparr>weechat_home := fst (strdup env v w1)\<rparr>)"
      using dir_step [OF Cons.prems] by blast
    show ?thesis
      using Cons.IH(2) [OF dir(2) w1(2)] dir dir_flag_not_info [OF dir(1)]
      by (simp add: parse_dir w1(1) cong: scan_result.case_cong)
  next
    case (run v rest')
    obtain w1 where w1: "free_if (weechat_startup_commands w) w = Returns w1"
      "heap_inv ((snd (strdup env v w1))\<lparr>weechat_startup_commands := fst (strdup env v w1)\<rparr>)"
      using run_step [OF Cons.prems] by blast
    show ?thesis
      using Cons.IH(2) [OF run(2) w1(2)] run run_flag_not_info [OF run(1)]
      by (simp add: parse_run w1(1) cong: scan_result.case_cong)
  next
    case setting
    then show ?thesis
      using Cons.IH(1) [of "setting a w"] Cons.prems by (simp add: parse_setting cong: scan_result.case_cong)
  qed
qed

subsection \<open>The home directory\<close>

lemma parse_home:
  "heap_inv w \<Longrightarrow> \<forall>n. \<not> alloc_fails env n \<Longrightarrow> parse_loop env argv0 args w = Returns w' \<Longrightarrow>
   cstr w' (weechat_home w') =
     (case dir_arg args of None \<Rightarrow> cstr w (weechat_home w) | Some d \<Rightarrow> Some d)"
proof (induction args arbitrary: w rule: args_induct)
  case Nil
  then show ?case by simp
next
  case (Cons a rest)
  show ?case
  proof (cases rule: parse_cases [where a = a and rest = rest])
    case info
    then show ?thesis
      using Cons.prems(3) shutdown_not_returns [of 0] by (simp add: parse_info)
  next
    case missing
    then show ?thesis
      using Cons.prems(3) shutdown_not_returns [of 1] by (simp add: parse_missing)
  next
    case (dir v rest')
    obtain w1 where w1: "free_if (weechat_home w) w = Returns w1"
      "heap_inv ((snd (strdup env v w1))\<lparr>weechat_home := fst (strdup env v w1)\<rparr>)"
      "cstr ((snd (strdup env v w1))\<lparr>weechat_home := fst (strdup env v w1)\<rparr>)
                   (fst (strdup env v w1)) = Some v"
      using dir_step [OF Cons.prems(1)] Cons.prems(2) by blast
    have "parse_loop env argv0 rest'
            ((snd (strdup env v w1))\<lparr>weechat_home := fst (strdup env v w1)\<rparr>) = Returns w'"
      using Cons.prems(3) dir by (simp add: parse_dir w1(1))
    from Cons.IH(2) [OF dir(2) w1(2) Cons.prems(2) this] show ?thesis
      using dir w1(3) by (simp split: option.split)
  next
    case (run v rest')
    obtain w1 where w1: "free_if (weechat_startup_commands w) w = Returns w1"
      "heap_inv ((snd (strdup env v w1))\<lparr>weechat_startup_commands := fst (strdup env v w1)\<rparr>)"
      "cstr ((snd (strdup env v w1))\<lparr>weechat_startup_commands := fst (strdup env v w1)\<rparr>)
                (weechat_home w1) = cstr w (weechat_home w)"
      using run_step [OF Cons.prems(1)] by blast
    have "parse_loop env argv0 rest'
            ((snd (strdup env v w1))\<lparr>weechat_startup_commands := fst (strdup env v w1)\<rparr>) = Returns w'"
      using Cons.prems(3) run by (simp add: parse_run w1(1))
    from Cons.IH(2) [OF run(2) w1(2) Cons.prems(2) this] show ?thesis
      using run w1(3) dir_flag_not_run [of a] by (auto simp add: strdup_def split: option.split)
  next
    case setting
    have "cstr (setting a w) (weechat_home (setting a w)) = cstr w (weechat_home w)"
      by (simp add: setting_def cstr_def split: option.split)
    then show ?thesis
      using Cons.IH(1) [of "setting a w"] Cons.prems setting
      by (simp add: parse_setting cong: option.case_cong)
  qed
qed

lemma fatal_message':
  "strings_valid w \<Longrightarrow>
   fatal_with (seq (weechat_shutdown env EXIT_FAILURE 0 (string_fprintf Stderr m w)) f) m"
  using fatal_message [of w env m] by (auto simp add: fatal_with_def EXIT_FAILURE_def)

lemma heap_inv_trace [simp]:
  "heap_inv (call env c w) = heap_inv w"
  "heap_inv (string_fprintf f m w) = heap_inv w"
  "heap_inv (emit e w) = heap_inv w"
  by (simp_all add: heap_inv_def live_iff call_def string_fprintf_def emit_def)

lemma cstr_trace [simp]:
  "cstr (call env c w) p = cstr w p"
  "cstr (string_fprintf f m w) p = cstr w p"
  "cstr (emit e w) p = cstr w p"
  by (simp_all add: cstr_def call_def string_fprintf_def emit_def split: option.split)

lemma home_trace [simp]:
  "weechat_home (call env c w) = weechat_home w"
  "weechat_home (string_fprintf f m w) = weechat_home w"
  "weechat_home (emit e w) = weechat_home w"
  by (simp_all add: call_def string_fprintf_def emit_def)

lemma cstr_simps [simp]: "cstr w None = None" "cstr w (Some a) = heap w a"
  by (simp_all add: cstr_def)

lemma heap_inv_set_home:
  assumes "heap_inv w" and "\<not> alloc_fails env (allocs w)"
  shows "heap_inv ((snd (strdup env s w))\<lparr>weechat_home := fst (strdup env s w)\<rparr>) \<and>
         fst (strdup env s w) \<noteq> None \<and>
         cstr ((snd (strdup env s w))\<lparr>weechat_home := fst (strdup env s w)\<rparr>)
              (fst (strdup env s w)) = Some s"
  using assms
  apply (cases "weechat_argv0 w"; cases "weechat_home w"; cases "weechat_local_charset w";
      cases "weechat_startup_commands w")
  apply (auto simp add: heap_inv_def live_iff strdup_def cstr_def)
  done

lemma set_home_path_spec:
  assumes "heap_inv w" and "\<not> alloc_fails env (allocs w)"
  shows "case expand_home env p of
           Inl m \<Rightarrow> fatal_with (weechat_set_home_path env p w) m
         | Inr d \<Rightarrow> home_is (weechat_set_home_path env p w) d"
proof -
  have ok: "home_is
      (case strdup env s w of
         (p, w) \<Rightarrow>
           if weechat_home (w\<lparr>weechat_home := p\<rparr>) = None then
             seq (weechat_shutdown env EXIT_FAILURE 0
                    (string_fprintf Stderr Err_no_memory (w\<lparr>weechat_home := p\<rparr>))) Returns
           else Returns (w\<lparr>weechat_home := p\<rparr>)) s" for s
    using heap_inv_set_home [OF assms, of s]
    by (auto simp add: home_is_def case_prod_beta)
  show ?thesis
  proof (cases p)
    case Nil
    then show ?thesis using ok [of "[]"]
      by (simp add: expand_home_def weechat_set_home_path_def)
  next
    case (Cons c path1)
    show ?thesis
    proof (cases "c = CHR ''~''")
      case False
      then show ?thesis using ok [of p] Cons
        by (simp add: expand_home_def weechat_set_home_path_def)
    next
      case True
      show ?thesis
      proof (cases "getenv env ''HOME''")
        case None
        then show ?thesis
          using True Cons fatal_message' [OF heap_inv_valid [OF assms(1)], of env Err_no_HOME Returns]
          by (simp add: expand_home_def weechat_set_home_path_def)
      next
        case (Some h)
        then show ?thesis using True Cons ok [of "h @ path1"]
          by (simp add: expand_home_def weechat_set_home_path_def)
      qed
    qed
  qed
qed

lemma create_dir_spec:
  assumes "heap_inv w" and "cstr w (weechat_home w) = Some d"
  shows "case dir_failure env d of
           Some m \<Rightarrow> fatal_with (create_dir env w) m
         | None \<Rightarrow> home_is (create_dir env w) d"
proof -
  have v1: "strings_valid (call env (Stat d) w)"
    and v2: "strings_valid (call env (Util_mkdir d 493) (call env (Stat d) w))"
    using heap_inv_valid [OF assms(1)] by simp_all
  show ?thesis
    using assms fatal_message' [OF v1, of env "Err_not_a_directory d" Returns]
      fatal_message' [OF v2, of env "Err_cannot_create d" Returns]
    by (auto simp add: dir_failure_def create_dir_def home_is_def Let_def)
qed

lemma seq_fatal: "fatal_with r m \<Longrightarrow> fatal_with (seq r f) m"
  by (auto simp add: fatal_with_def)

lemma create_home_spec:
  assumes "heap_inv w" and "\<forall>n. \<not> alloc_fails env n"
  shows "resolves env (cstr w (weechat_home w)) (weechat_create_home_dir env w)"
proof (cases "weechat_home w")
  case (Some a)
  then obtain d where d: "cstr w (weechat_home w) = Some d"
    using assms(1) by (auto simp add: heap_inv_def live_iff cstr_def)
  show ?thesis
    using create_dir_spec [OF assms(1) d, of env] Some d
    by (simp add: resolves_def resolve_home_def weechat_create_home_dir_def)
next
  case None
  then have c: "cstr w (weechat_home w) = None"
    by (simp add: cstr_def)
  have na: "\<not> alloc_fails env (allocs w)"
    using assms(2) by simp
  have step: "case expand_home env p of
                Inl m \<Rightarrow> fatal_with (seq (weechat_set_home_path env p w) f) m
              | Inr d \<Rightarrow>
                  (case dir_failure env d of
                     Some m \<Rightarrow> fatal_with (seq (weechat_set_home_path env p w) f) m
                   | None \<Rightarrow> home_is (seq (weechat_set_home_path env p w) f) d)"
    if f: "\<And>w1. weechat_home w1 \<noteq> None \<Longrightarrow> f w1 = create_dir env w1" for p f
  proof (cases "expand_home env p")
    case (Inl m)
    then show ?thesis
      using set_home_path_spec [OF assms(1) na, of p] by (simp add: seq_fatal)
  next
    case (Inr d)
    then obtain w1 where w1: "weechat_set_home_path env p w = Returns w1" "heap_inv w1"
      "cstr w1 (weechat_home w1) = Some d"
      using set_home_path_spec [OF assms(1) na, of p] by (auto simp add: home_is_def)
    have "weechat_home w1 \<noteq> None"
      using w1(3) by (cases "weechat_home w1") (simp_all add: cstr_def)
    then show ?thesis
      using create_dir_spec [OF w1(2,3), of env] Inr
      by (simp add: w1(1) f cong: option.case_cong)
  qed
  have undefined_home: "fatal_with
      (seq (weechat_shutdown env EXIT_FAILURE 0 (string_fprintf Stderr Err_home_undefined w))
           Returns) Err_home_undefined"
    by (rule fatal_message' [OF heap_inv_valid [OF assms(1)]])
  show ?thesis
  proof (cases "getenv env ''WEECHAT_HOME''")
    case gn: None
    show ?thesis
      using step [of "create_dir env" "config_weechat_home env"] undefined_home
      by (simp add: resolves_def resolve_home_def weechat_create_home_dir_def None c gn)
  next
    case (Some p)
    show ?thesis
    proof (cases "p = []")
      case True
      then show ?thesis
        using step [of "create_dir env" "config_weechat_home env"] undefined_home
        by (simp add: resolves_def resolve_home_def weechat_create_home_dir_def None c Some)
    next
      case False
      let ?f = "\<lambda>w. if weechat_home w = None
            then if config_weechat_home env = []
                 then seq (weechat_shutdown env EXIT_FAILURE 0
                             (string_fprintf Stderr Err_home_undefined w)) Returns
                 else seq (weechat_set_home_path env (config_weechat_home env) w)
                          (create_dir env)
            else create_dir env w"
      have "case expand_home env p of
                Inl m \<Rightarrow> fatal_with (seq (weechat_set_home_path env p w) ?f) m
              | Inr d \<Rightarrow>
                  (case dir_failure env d of
                     Some m \<Rightarrow> fatal_with (seq (weechat_set_home_path env p w) ?f) m
                   | None \<Rightarrow> home_is (seq (weechat_set_home_path env p w) ?f) d)"
        by (rule step) auto
      then show ?thesis
        using False
        by (simp add: resolves_def resolve_home_def weechat_create_home_dir_def None c Some)
    qed
  qed
qed

lemma out_fields [simp]:
  "trace (out evs ls w) = trace w @ evs"
  "lines_waiting (out evs ls w) = lines_waiting w @ ls"
  "weechat_upgrading (out evs ls w) = weechat_upgrading w"
  "weechat_upgrade_count (out evs ls w) = weechat_upgrade_count w"
  "weechat_locale_ok (out evs ls w) = weechat_locale_ok w"
  "weechat_auto_load_plugins (out evs ls w) = weechat_auto_load_plugins w"
  "weechat_home (out evs ls w) = weechat_home w"
  "weechat_quit_signal (out evs ls w) = weechat_quit_signal w"
  "upgrade_files (out evs ls w) = upgrade_files w"
  "sigtable (out evs ls w) = sigtable w"
  "heap (out evs ls w) = heap w"
  by (simp_all add: out_def)

lemma out_out [simp]: "out evs2 ls2 (out evs1 ls1 w) = out (evs1 @ evs2) (ls1 @ ls2) w"
  by (simp add: out_def)

lemma out_Nil [simp]: "out [] [] w = w"
  by (simp add: out_def)

lemma call_out: "call env c w = out [Call c] (ext_lines env c) w"
  by (simp add: call_def out_def)

lemma gui_chat_printf_out: "gui_chat_printf m w = out [Chat_printf m] [] w"
  by (simp add: gui_chat_printf_def emit_def out_def)

lemma startup_message_out:
  "weechat_startup_message env w = out (banner_events env) (banner_lines env) w"
  by (simp add: weechat_startup_message_def banner_events_def banner_lines_def Let_def
      call_out gui_chat_printf_out)

lemma term_check_out: "weechat_term_check env w = out (term_events env) [] w"
  by (simp add: weechat_term_check_def term_events_def Let_def gui_chat_printf_out
      initial_world_def)

lemma locale_check_out: "weechat_locale_check w = out (locale_events w) [] w"
  by (simp add: weechat_locale_check_def locale_events_def gui_chat_printf_out)

lemma trace_init_after_home:
  "\<exists>ls. trace (init_after_home env argv gui_init_cb w) =
     trace w @
     [Call Log_init, Call Plugin_api_init, Call Secure_read, Call Config_weechat_read,
      Call Network_init_gnutls] @
     (if gui_init_cb then [Call Gui_init_cb] else []) @
     (if weechat_upgrading w \<noteq> 0 then [Call Upgrade_weechat_load] else []) @
     banner_events env @
     Call (Gui_chat_print_lines_waiting_buffer None) # map (Line_out None) ls @
     term_events env @ locale_events w @
     [Call (Command_startup 0), Call (Plugin_init (weechat_auto_load_plugins w) argv),
      Call (Command_startup 1)] @
     (if weechat_upgrading w = 0 then [Call Gui_layout_window_apply]
      else [Call Upgrade_weechat_end])"
  apply (simp add: init_after_home_def Let_def calls_def startup_message_out term_check_out
      locale_check_out call_out gui_chat_print_lines_waiting_buffer_def upgrade_weechat_end_def
      locale_events_def)
  apply (auto simp flip: map_append)
  done

lemma init_after_home_fields:
  "weechat_upgrading (init_after_home env argv gui_init_cb w) = weechat_upgrading w"
  "weechat_upgrade_count (init_after_home env argv gui_init_cb w) =
     (if weechat_upgrading w \<noteq> 0 then weechat_upgrade_count w + 1 else weechat_upgrade_count w)"
  "upgrade_files (init_after_home env argv gui_init_cb w) =
     (if weechat_upgrading w \<noteq> 0 then False else upgrade_files w)"
  "weechat_home (init_after_home env argv gui_init_cb w) = weechat_home w"
  "heap (init_after_home env argv gui_init_cb w) = heap w"
  "sigtable (init_after_home env argv gui_init_cb w) = sigtable w"
  "weechat_quit_signal (init_after_home env argv gui_init_cb w) = weechat_quit_signal w"
  by (simp_all add: init_after_home_def Let_def calls_def startup_message_out term_check_out
      locale_check_out call_out gui_chat_print_lines_waiting_buffer_def upgrade_weechat_end_def)

subsection \<open>The parts of \<open>weechat_init\<close>\<close>

lemma parse_args_eq:
  "weechat_parse_args env argv w =
     parse_loop env (argv0_of argv) (tl argv) (args_start env argv w)"
  by (cases argv) (simp_all add: weechat_parse_args_def args_start_def argv0_of_def
      case_prod_beta)

lemma heap_inv_args_start:
  assumes "heap_inv w"
  shows "heap_inv (args_start env argv w)"
  using assms
  apply (cases "weechat_argv0 w"; cases "weechat_home w"; cases "weechat_local_charset w";
      cases "weechat_startup_commands w"; cases argv)
  apply (auto simp add: heap_inv_def live_iff args_start_def strdup_def)
  done

lemma home_args_start [simp]: "weechat_home (args_start env argv w) = None"
  by (simp add: args_start_def)

lemma frame_args_start: "frame P w (args_start env argv w)"
  by (cases argv) (auto simp add: frame_def args_start_def strdup_def)

lemma frame_parse_args:
  "frame parse_event w (world_of (weechat_parse_args env argv w))"
  unfolding parse_args_eq by (rule frame_parse_loop) (rule frame_args_start)

lemma at_secure_init_fields:
  "trace (before_args env w) = trace w @ before_args_events env"
  "weechat_upgrade_count (before_args env w) = weechat_upgrade_count w"
  "upgrade_files (before_args env w) = upgrade_files w"
  "weechat_quit_signal (before_args env w) = weechat_quit_signal w"
  "sigtable (before_args env w) = sigtable (catch_signals env w)"
  "before_args env w = call env Config_weechat_init (at_secure_init env w)"
  by (simp_all add: before_args_def at_secure_init_def init_locale_def catch_signals_def
      util_catch_signal_def calls_def call_def strdup_def Let_def before_args_events_def)

lemma heap_inv_before_args:
  assumes "heap_inv w"
  shows "heap_inv (before_args env w)"
  using assms
  apply (cases "weechat_argv0 w"; cases "weechat_home w"; cases "weechat_local_charset w";
      cases "weechat_startup_commands w")
  apply (auto simp add: heap_inv_def live_iff before_args_def init_locale_def catch_signals_def
      util_catch_signal_def calls_def call_def strdup_def Let_def)
  done

lemma heap_inv_at_secure_init:
  assumes "heap_inv w"
  shows "heap_inv (at_secure_init env w)"
  using heap_inv_before_args [OF assms, of env]
  by (simp add: at_secure_init_fields(6))

lemma heap_inv_initial: "heap_inv (initial_world\<lparr>upgrade_files := h\<rparr>)"
  by (simp add: heap_inv_def initial_world_def live_iff)

lemma weechat_init_eq:
  "weechat_init env argv gui_init_cb w =
     (if \<not> secure_init_ok env then weechat_shutdown env EXIT_FAILURE 0 (at_secure_init env w)
      else if \<not> config_weechat_init_ok env
        then weechat_shutdown env EXIT_FAILURE 0 (before_args env w)
      else seq (weechat_parse_args env argv (before_args env w))
             (\<lambda>w. seq (weechat_create_home_dir env w)
             (\<lambda>w. Returns (init_after_home env argv gui_init_cb w))))"
  by (simp add: weechat_init_def Let_def at_secure_init_def before_args_def EXIT_FAILURE_def)

lemma frame_home_shutdown:
  "frame home_event w0 w \<Longrightarrow>
   frame home_event w0 (world_of (weechat_shutdown env rc crash w))"
  by (blast intro: frame_trans frame_mono [OF frame_shutdown] home_event_parse)

lemma frame_home_fprintf [simp]:
  "frame home_event w0 w \<Longrightarrow> frame home_event w0 (string_fprintf f m w)"
  by (auto simp add: frame_def string_fprintf_def emit_def)

lemma frame_home_call [simp]:
  "home_event (Call c) \<Longrightarrow> frame home_event w0 w \<Longrightarrow> frame home_event w0 (call env c w)"
  by (auto simp add: frame_def call_def)

lemma frame_home_fatal:
  "frame home_event w0 w \<Longrightarrow>
   frame home_event w0
     (world_of (seq (weechat_shutdown env rc crash (string_fprintf Stderr m w)) Returns))"
  by (intro frame_seq' frame_home_shutdown) simp_all

lemma frame_set_home_path:
  assumes "frame home_event w0 w"
  shows "frame home_event w0 (world_of (weechat_set_home_path env p w))"
proof -
  have nm: "frame home_event w0
      (world_of (case strdup env s w of
         (p, w) \<Rightarrow>
           if weechat_home (w\<lparr>weechat_home := p\<rparr>) = None then
             seq (weechat_shutdown env EXIT_FAILURE 0
                    (string_fprintf Stderr Err_no_memory (w\<lparr>weechat_home := p\<rparr>))) Returns
           else Returns (w\<lparr>weechat_home := p\<rparr>)))" for s
  proof -
    have "frame home_event w0 (snd (strdup env s w))"
      using frame_strdup' [OF surjective_pairing assms] .
    then have "frame home_event w0 ((snd (strdup env s w))\<lparr>weechat_home := fst (strdup env s w)\<rparr>)"
      by simp
    then show ?thesis
      using frame_home_fatal by (simp add: case_prod_beta)
  qed
  show ?thesis
  proof (cases p)
    case Nil
    then show ?thesis using nm [of "[]"] by (simp add: weechat_set_home_path_def)
  next
    case (Cons c path1)
    show ?thesis
    proof (cases "getenv env ''HOME''")
      case None
      then show ?thesis
        using Cons nm [of p] frame_home_fatal [OF assms]
        by (simp add: weechat_set_home_path_def)
    next
      case (Some h)
      then show ?thesis
        using Cons nm [of p] nm [of "h @ path1"]
        by (simp add: weechat_set_home_path_def)
    qed
  qed
qed

lemma frame_create_dir:
  assumes "frame home_event w0 w"
  shows "frame home_event w0 (world_of (create_dir env w))"
proof (cases "cstr w (weechat_home w)")
  case None
  then show ?thesis using assms by (simp add: create_dir_def)
next
  case (Some path)
  have 1: "frame home_event w0 (call env (Stat path) w)"
    using assms by simp
  then have 2: "frame home_event w0 (call env (Util_mkdir path 493) (call env (Stat path) w))"
    by simp
  show ?thesis
    using Some 1 2 frame_home_fatal [OF 1] frame_home_fatal [OF 2]
    by (simp add: create_dir_def Let_def)
qed

lemma frame_create_home_dir:
  assumes "frame home_event w0 w"
  shows "frame home_event w0 (world_of (weechat_create_home_dir env w))"
  unfolding weechat_create_home_dir_def
proof (rule frame_seq')
  show "frame home_event w0
     (world_of (if weechat_home w = None
        then case getenv env ''WEECHAT_HOME'' of None \<Rightarrow> Returns w
             | Some ptr_weechat_home \<Rightarrow>
                 if ptr_weechat_home \<noteq> [] then weechat_set_home_path env ptr_weechat_home w
                 else Returns w
        else Returns w))"
    using assms frame_set_home_path [OF assms] by (simp split: option.split)
next
  fix w1
  assume w1: "frame home_event w0 w1"
  show "frame home_event w0
          (world_of
            (if weechat_home w1 = None
             then if config_weechat_home env = []
                  then seq (weechat_shutdown env EXIT_FAILURE 0
                              (string_fprintf Stderr Err_home_undefined w1))
                        Returns
                  else seq (weechat_set_home_path env (config_weechat_home env) w1)
                        (create_dir env)
             else create_dir env w1))"
    using frame_create_dir [OF w1] frame_home_fatal [OF w1]
      frame_seq' [of home_event w0 "weechat_set_home_path env (config_weechat_home env) w1"
        "create_dir env", OF frame_set_home_path [OF w1] frame_create_dir]
    by simp
qed

lemma init_returns:
  assumes "weechat_init env argv gui_init_cb w = Returns w'"
  obtains w1 w2 where "secure_init_ok env" and "config_weechat_init_ok env"
    and "weechat_parse_args env argv (before_args env w) = Returns w1"
    and "weechat_create_home_dir env w1 = Returns w2"
    and "w' = init_after_home env argv gui_init_cb w2"
proof -
  have s: "secure_init_ok env" and c: "config_weechat_init_ok env"
    using assms shutdown_not_returns [of EXIT_FAILURE]
    by (auto simp add: weechat_init_eq EXIT_FAILURE_def split: if_splits)
  from assms s c obtain w1 where w1: "weechat_parse_args env argv (before_args env w) = Returns w1"
    by (cases "weechat_parse_args env argv (before_args env w)") (simp_all add: weechat_init_eq)
  from assms s c w1 obtain w2 where w2: "weechat_create_home_dir env w1 = Returns w2"
    by (cases "weechat_create_home_dir env w1") (simp_all add: weechat_init_eq)
  from assms s c w1 w2 have "w' = init_after_home env argv gui_init_cb w2"
    by (simp add: weechat_init_eq)
  with s c w1 w2 show ?thesis using that by blast
qed

lemma init_returns_frame:
  assumes "weechat_parse_args env argv w0 = Returns w1"
    and "weechat_create_home_dir env w1 = Returns w2"
  shows "frame home_event w0 w2"
proof -
  have "frame parse_event w0 w1"
    using frame_parse_args [of w0 env argv] assms(1) by simp
  then have "frame home_event w0 w1"
    by (rule frame_mono) (rule home_event_parse)
  from frame_create_home_dir [OF this, of env] show ?thesis
    using assms(2) by simp
qed

subsection \<open>\<open>weechat_init\<close> as a whole\<close>

named_theorems run \<open>the definitions of the functions of the file, for running them\<close>

lemmas run_defs [run] =
  weechat_init_def init_locale_def catch_signals_def util_catch_signal_def calls_def call_def
  strdup_def weechat_parse_args_def parse_loop.simps weechat_shutdown_def
  gui_chat_print_lines_waiting_buffer_def free_if_def free_block_def emit_def
  string_fprintf_def gui_chat_printf_def weechat_display_usage_def
  weechat_display_copyright_def weechat_create_home_dir_def weechat_set_home_path_def
  create_dir_def cstr_def init_after_home_def weechat_startup_message_def
  weechat_term_check_def weechat_locale_check_def upgrade_weechat_end_def
  initial_world_def env0_def EXIT_SUCCESS_def EXIT_FAILURE_def Let_def process_start_def

lemma parse_event_not_after_args: "parse_event e \<Longrightarrow> \<not> after_args_step e"
  by (cases e) auto

lemma filter_none: "list_all P evs \<Longrightarrow> (\<And>e. P e \<Longrightarrow> \<not> Q e) \<Longrightarrow> filter Q evs = []"
  by (induction evs) auto

lemma parse_event_not_initializer: "parse_event e \<Longrightarrow> \<not> initializer_step e"
  by (cases e) auto

lemma heap_inv_start [simp]: "heap_inv (process_start h)"
  by (simp add: process_start_def heap_inv_initial)

lemma trace_start [simp]: "trace (process_start h) = []"
  by (simp add: process_start_def initial_world_def)

lemma out_pointers [simp]:
  "allocs (out evs ls w) = allocs w"
  "weechat_argv0 (out evs ls w) = weechat_argv0 w"
  "weechat_local_charset (out evs ls w) = weechat_local_charset w"
  "weechat_startup_commands (out evs ls w) = weechat_startup_commands w"
  by (simp_all add: out_def)

lemma init_after_home_pointers:
  "allocs (init_after_home env argv gui_init_cb w) = allocs w"
  "weechat_argv0 (init_after_home env argv gui_init_cb w) = weechat_argv0 w"
  "weechat_local_charset (init_after_home env argv gui_init_cb w) = weechat_local_charset w"
  "weechat_startup_commands (init_after_home env argv gui_init_cb w) =
     weechat_startup_commands w"
  by (simp_all add: init_after_home_def Let_def calls_def startup_message_out term_check_out
      locale_check_out call_out gui_chat_print_lines_waiting_buffer_def upgrade_weechat_end_def)

lemma heap_inv_init_after_home:
  "heap_inv (init_after_home env argv gui_init_cb w) = heap_inv w"
  by (simp add: heap_inv_def live_iff init_after_home_pointers init_after_home_fields)

lemma cstr_init_after_home:
  "cstr (init_after_home env argv gui_init_cb w) p = cstr w p"
  by (cases p) (simp_all add: init_after_home_fields)

lemma init_info:
  assumes "secure_init_ok env" and "config_weechat_init_ok env"
    and "scan (tl argv) = Info a" and "heap_inv w"
  shows "\<exists>w' evs. weechat_init env argv gui_init_cb w = Exits 0 w' \<and>
           info_event (argv0_of argv) a \<in> set (trace w') \<and>
           trace w' = trace w @ before_args_events env @ evs \<and> list_all parse_event evs"
proof -
  let ?w0 = "before_args env w"
  have inv: "heap_inv (args_start env argv ?w0)"
    by (intro heap_inv_args_start heap_inv_before_args assms(4))
  obtain w' where w': "weechat_parse_args env argv ?w0 = Exits 0 w'"
    "info_event (argv0_of argv) a \<in> set (trace w')"
    using parse_scan [OF inv, where args = "tl argv" and env = env and ?argv0.0 = "argv0_of argv"] assms(3)
    by (auto simp add: parse_args_eq)
  have "frame parse_event ?w0 w'"
    using frame_parse_args [of ?w0 env argv] w'(1) by simp
  then obtain evs where "trace w' = trace w @ before_args_events env @ evs"
    "list_all parse_event evs"
    by (auto simp add: frame_def at_secure_init_fields(1))
  then show ?thesis
    using w' assms(1,2) by (simp add: weechat_init_eq)
qed

lemma init_resolves:
  assumes "secure_init_ok env" and "config_weechat_init_ok env"
    and "\<forall>n. \<not> alloc_fails env n" and "scan (tl argv) = Parsed" and "heap_inv w"
  shows "resolves env (dir_arg (tl argv)) (weechat_init env argv gui_init_cb w)"
proof -
  let ?w0 = "before_args env w"
  have inv: "heap_inv (args_start env argv ?w0)"
    by (intro heap_inv_args_start heap_inv_before_args assms(5))
  obtain w1 where w1: "weechat_parse_args env argv ?w0 = Returns w1" "heap_inv w1"
    using parse_scan [OF inv, where args = "tl argv" and env = env and ?argv0.0 = "argv0_of argv"] assms(4)
    by (auto simp add: parse_args_eq)
  have home: "cstr w1 (weechat_home w1) = dir_arg (tl argv)"
    using parse_home [OF inv assms(3) w1(1) [unfolded parse_args_eq]]
    by (simp split: option.split)
  have init: "weechat_init env argv gui_init_cb w =
      seq (weechat_create_home_dir env w1) (\<lambda>w. Returns (init_after_home env argv gui_init_cb w))"
    using assms(1,2) w1(1) by (simp add: weechat_init_eq)
  have f: "fatal_with (weechat_create_home_dir env w1) m \<Longrightarrow>
           fatal_with (weechat_init env argv gui_init_cb w) m" for m
    unfolding init by (rule seq_fatal)
  have h: "home_is (weechat_create_home_dir env w1) d \<Longrightarrow>
           home_is (weechat_init env argv gui_init_cb w) d" for d
    unfolding init
    by (auto simp add: home_is_def heap_inv_init_after_home init_after_home_fields
        cstr_init_after_home)
  show ?thesis
    using create_home_spec [OF w1(2) assms(3)] f h
    by (auto simp add: resolves_def home split: sum.splits option.splits)
qed

lemma run_help:
  "exit_code (weechat_init env0 [''weechat'', ''--help''] True initial_world) = Some EXIT_SUCCESS"
  by (simp add: run)

lemma run_help_steps:
  "filter initializer_step
     (trace (world_of (weechat_init env0 [''weechat'', ''--help''] True initial_world))) =
   [Call Hdata_init, Call Hook_init, Call Network_init_gcrypt, Call Secure_init,
    Call Config_weechat_init]"
  by (simp add: run)

lemma env0_simps [simp]:
  "secure_init_ok env0" "config_weechat_init_ok env0" "\<not> alloc_fails env0 n"
  "getenv env0 ''HOME'' = Some ''/tmp/u''" "getenv env0 ''WEECHAT_HOME'' = None"
  "config_weechat_home env0 = ''~/.weechat''" "stat_isdir env0 p = None" "util_mkdir_ok env0 p"
  "ext_lines env0 c = []"
  by (simp_all add: env0_def)

lemma env1_simps [simp]:
  "secure_init_ok env1" "config_weechat_init_ok env1" "\<not> alloc_fails env1 n"
  "getenv env1 ''HOME'' = Some ''/tmp/u''" "getenv env1 ''WEECHAT_HOME'' = Some ''~/.x''"
  "stat_isdir env1 p = None" "util_mkdir_ok env1 p"
  by (simp_all add: env1_def env0_def)

lemma flag_simps [simp]:
  "info_flag ''-h''" "info_flag ''--help''" "info_flag ''-v''" "info_flag ''--version''"
  "info_flag ''-c''" "info_flag ''-l''"
  "\<not> info_flag ''-d''" "\<not> info_flag ''--dir''" "\<not> info_flag ''-p''"
  "\<not> info_flag ''--upgrade''" "\<not> info_flag ''-r''"
  "dir_flag ''-d''" "dir_flag ''--dir''" "\<not> dir_flag ''-p''" "\<not> dir_flag ''--upgrade''"
  "\<not> dir_flag ''-r''"
  "run_flag ''-r''" "\<not> run_flag ''-p''" "\<not> run_flag ''--upgrade''"
  by (simp_all add: info_flag_def dir_flag_def run_flag_def)

subsection \<open>Runs of \<open>weechat_init\<close> that return\<close>

lemma returned_world_of: "returned r \<Longrightarrow> r = Returns (world_of r)"
  by (cases r) simp_all

lemma run_upgrade_home:
  "returned (seq (weechat_parse_args env0 [''weechat'', ''--upgrade'']
                    (before_args env0 (process_start True)))
                 (weechat_create_home_dir env0)) \<and>
   weechat_upgrading (world_of (seq (weechat_parse_args env0 [''weechat'', ''--upgrade'']
                    (before_args env0 (process_start True)))
                 (weechat_create_home_dir env0))) = 1"
  by (simp add: run before_args_def)

lemma run_upgrade_home_fail:
  "returned (seq (weechat_parse_args env_fail [''weechat'', ''--upgrade'']
                    (before_args env_fail (process_start True)))
                 (weechat_create_home_dir env_fail)) \<and>
   weechat_upgrading (world_of (seq (weechat_parse_args env_fail [''weechat'', ''--upgrade'']
                    (before_args env_fail (process_start True)))
                 (weechat_create_home_dir env_fail))) = 1"
  by (simp add: run before_args_def env_fail_def)

lemma seq_assoc: "seq (seq r f) g = seq r (\<lambda>w. seq (f w) g)"
  by (cases r) simp_all

lemma init_returns_shape:
  assumes "weechat_init env argv gui_init_cb w = Returns w'"
  obtains w2 evs where "w' = init_after_home env argv gui_init_cb w2"
    and "trace w2 = trace w @ before_args_events env @ evs" and "list_all home_event evs"
    and "weechat_upgrade_count w2 = weechat_upgrade_count w"
    and "upgrade_files w2 = upgrade_files w"
    and "sigtable w2 = sigtable (catch_signals env w)"
    and "weechat_quit_signal w2 = weechat_quit_signal w"
proof -
  from assms obtain w1 w2 where
    p: "weechat_parse_args env argv (before_args env w) = Returns w1"
    and c: "weechat_create_home_dir env w1 = Returns w2"
    and w': "w' = init_after_home env argv gui_init_cb w2"
    by (rule init_returns)
  have "frame home_event (before_args env w) w2"
    using p c by (rule init_returns_frame)
  then show ?thesis
    using that [OF w'] by (auto simp add: frame_def at_secure_init_fields(1-5))
qed

lemma init_upgrade_effect:
  assumes "weechat_init env argv gui_init_cb w = Returns w'" and "weechat_upgrading w' \<noteq> 0"
  shows "weechat_upgrade_count w' = weechat_upgrade_count w + 1 \<and> \<not> upgrade_files w' \<and>
         Call Upgrade_weechat_end \<in> set (trace w')"
proof -
  from assms(1) obtain w2 evs where w2: "w' = init_after_home env argv gui_init_cb w2"
    "weechat_upgrade_count w2 = weechat_upgrade_count w"
    by (rule init_returns_shape)
  have u: "weechat_upgrading w2 \<noteq> 0"
    using assms(2) by (simp add: w2(1) init_after_home_fields)
  obtain ls where "trace w' = trace w2 @
     [Call Log_init, Call Plugin_api_init, Call Secure_read, Call Config_weechat_read,
      Call Network_init_gnutls] @
     (if gui_init_cb then [Call Gui_init_cb] else []) @
     (if weechat_upgrading w2 \<noteq> 0 then [Call Upgrade_weechat_load] else []) @
     banner_events env @
     Call (Gui_chat_print_lines_waiting_buffer None) # map (Line_out None) ls @
     term_events env @ locale_events w2 @
     [Call (Command_startup 0), Call (Plugin_init (weechat_auto_load_plugins w2) argv),
      Call (Command_startup 1)] @
     (if weechat_upgrading w2 = 0 then [Call Gui_layout_window_apply]
      else [Call Upgrade_weechat_end])"
    unfolding w2(1) using trace_init_after_home by blast
  then show ?thesis
    using u by (simp add: w2 init_after_home_fields)
qed

lemma run_upgrade:
  "weechat_init env0 [''weechat'', ''--upgrade''] True (process_start True) =
     Returns (world_of (weechat_init env0 [''weechat'', ''--upgrade''] True (process_start True)))
   \<and> weechat_upgrading
       (world_of (weechat_init env0 [''weechat'', ''--upgrade''] True (process_start True))) = 1"
proof -
  let ?r1 = "seq (weechat_parse_args env0 [''weechat'', ''--upgrade'']
                    (before_args env0 (process_start True)))
                 (weechat_create_home_dir env0)"
  have "weechat_init env0 [''weechat'', ''--upgrade''] True (process_start True) =
      seq ?r1 (\<lambda>w. Returns (init_after_home env0 [''weechat'', ''--upgrade''] True w))"
    by (simp add: weechat_init_eq seq_assoc)
  also have "\<dots> = Returns (init_after_home env0 [''weechat'', ''--upgrade''] True (world_of ?r1))"
    using returned_world_of [of ?r1] run_upgrade_home by (metis seq_simps(1))
  finally show ?thesis
    using run_upgrade_home by (simp add: init_after_home_fields)
qed

lemma run_upgrade_fail:
  "weechat_init env_fail [''weechat'', ''--upgrade''] True (process_start True) =
     Returns (world_of (weechat_init env_fail [''weechat'', ''--upgrade''] True (process_start True)))
   \<and> weechat_upgrading
       (world_of (weechat_init env_fail [''weechat'', ''--upgrade''] True (process_start True))) = 1"
proof -
  let ?r1 = "seq (weechat_parse_args env_fail [''weechat'', ''--upgrade'']
                    (before_args env_fail (process_start True)))
                 (weechat_create_home_dir env_fail)"
  have "weechat_init env_fail [''weechat'', ''--upgrade''] True (process_start True) =
      seq ?r1 (\<lambda>w. Returns (init_after_home env_fail [''weechat'', ''--upgrade''] True w))"
    by (simp add: weechat_init_eq seq_assoc env_fail_def)
  also have "\<dots> = Returns (init_after_home env_fail [''weechat'', ''--upgrade''] True (world_of ?r1))"
    using returned_world_of [of ?r1] run_upgrade_home_fail by (metis seq_simps(1))
  finally show ?thesis
    using run_upgrade_home_fail by (simp add: init_after_home_fields)
qed

lemma start_fields [simp]:
  "upgrade_files (process_start h) = h" "weechat_upgrade_count (process_start h) = 0"
  "weechat_quit_signal (process_start h) = 0"
  by (simp_all add: process_start_def initial_world_def)

subsection \<open>The order of the events of an upgrade launch\<close>

lemma trace_order:
  assumes tr: "tr = pre @ a # rest @ [b]"
    and ab: "a \<noteq> b"
    and pre: "\<And>x. x \<in> set pre \<Longrightarrow> x \<noteq> a \<and> x \<noteq> b"
    and rest: "\<And>x. x \<in> set rest \<Longrightarrow> x \<noteq> a \<and> x \<noteq> b"
  shows "occurrences a tr = 1" and "before a tr = pre" and "occurrences b tr = 1" and "last tr = b"
    and "before b tr = pre @ a # rest"
proof -
  have fa: "filter (\<lambda>x. x = a) pre = []" "filter (\<lambda>x. x = a) rest = []"
    and fb: "filter (\<lambda>x. x = b) pre = []" "filter (\<lambda>x. x = b) rest = []"
    using pre rest by (simp_all add: filter_empty_conv)
  show "occurrences a tr = 1"
    using ab by (simp add: occurrences_def tr fa)
  show "occurrences b tr = 1"
    using ab by (simp add: occurrences_def tr fb)
  show "last tr = b"
    by (simp add: tr)
  have "takeWhile (\<lambda>x. x \<noteq> a) (pre @ a # rest @ [b]) = pre @ takeWhile (\<lambda>x. x \<noteq> a) (a # rest @ [b])"
    using pre by (intro takeWhile_append2) blast
  then show "before a tr = pre"
    by (simp add: before_def tr)
  have "takeWhile (\<lambda>x. x \<noteq> b) ((pre @ a # rest) @ [b]) =
        (pre @ a # rest) @ takeWhile (\<lambda>x. x \<noteq> b) [b]"
    using pre rest ab by (intro takeWhile_append2) auto
  then show "before b tr = pre @ a # rest"
    by (simp add: before_def tr)
qed

lemma banner_events_display: "list_all display_event (banner_events env)"
  by (simp add: banner_events_def)

lemma term_events_display: "list_all display_event (term_events env)"
  by (simp add: term_events_def weechat_term_check_def Let_def gui_chat_printf_def emit_def
      initial_world_def)

lemma locale_events_display: "list_all display_event (locale_events w)"
  by (simp add: locale_events_def)

lemma home_event_early: "home_event e \<Longrightarrow> early_event e"
  by (cases e) simp_all

lemma before_args_events_early: "list_all early_event (before_args_events env)"
  by (simp add: before_args_events_def)

lemma early_event_not:
  assumes "early_event e"
  shows "e \<noteq> Call Upgrade_weechat_load" and "e \<noteq> Call Upgrade_weechat_end"
    and "\<not> banner_event e" and "e \<noteq> Call Log_init"
  using assms by (cases e; auto)+

lemma display_event_not:
  assumes "display_event e"
  shows "e \<noteq> Call Upgrade_weechat_load" and "e \<noteq> Call Upgrade_weechat_end"
  using assms by (cases e; auto)+

lemma init_upgrade_trace:
  assumes "weechat_init env argv gui_init_cb w = Returns w'" and "weechat_upgrading w' \<noteq> 0"
  obtains early mid where
    "trace w' = trace w @ early @
       [Call Log_init, Call Plugin_api_init, Call Secure_read, Call Config_weechat_read,
        Call Network_init_gnutls] @
       (if gui_init_cb then [Call Gui_init_cb] else []) @
       Call Upgrade_weechat_load # mid @
       [Call (Command_startup 0), Call (Plugin_init (weechat_auto_load_plugins w') argv),
        Call (Command_startup 1), Call Upgrade_weechat_end]"
    and "list_all early_event early" and "list_all display_event mid"
proof -
  from assms(1) obtain w2 evs where w2: "w' = init_after_home env argv gui_init_cb w2"
    "trace w2 = trace w @ before_args_events env @ evs" "list_all home_event evs"
    by (rule init_returns_shape)
  have u: "weechat_upgrading w2 \<noteq> 0"
    using assms(2) by (simp add: w2(1) init_after_home_fields)
  have p: "weechat_auto_load_plugins w' = weechat_auto_load_plugins w2"
    by (simp add: w2(1) init_after_home_def Let_def calls_def startup_message_out
        term_check_out locale_check_out call_out gui_chat_print_lines_waiting_buffer_def
        upgrade_weechat_end_def)
  obtain ls where ls: "trace w' = trace w2 @
     [Call Log_init, Call Plugin_api_init, Call Secure_read, Call Config_weechat_read,
      Call Network_init_gnutls] @
     (if gui_init_cb then [Call Gui_init_cb] else []) @
     (if weechat_upgrading w2 \<noteq> 0 then [Call Upgrade_weechat_load] else []) @
     banner_events env @
     Call (Gui_chat_print_lines_waiting_buffer None) # map (Line_out None) ls @
     term_events env @ locale_events w2 @
     [Call (Command_startup 0), Call (Plugin_init (weechat_auto_load_plugins w2) argv),
      Call (Command_startup 1)] @
     (if weechat_upgrading w2 = 0 then [Call Gui_layout_window_apply]
      else [Call Upgrade_weechat_end])"
    unfolding w2(1) using trace_init_after_home by blast
  let ?early = "before_args_events env @ evs"
  let ?mid = "banner_events env @
     Call (Gui_chat_print_lines_waiting_buffer None) # map (Line_out None) ls @
     term_events env @ locale_events w2"
  have e: "list_all early_event ?early"
    using w2(3) before_args_events_early home_event_early by (auto simp add: list_all_iff)
  have m: "list_all display_event ?mid"
    using banner_events_display term_events_display locale_events_display
    by (auto simp add: list_all_iff)
  have "trace w' = trace w @ ?early @
       [Call Log_init, Call Plugin_api_init, Call Secure_read, Call Config_weechat_read,
        Call Network_init_gnutls] @
       (if gui_init_cb then [Call Gui_init_cb] else []) @
       Call Upgrade_weechat_load # ?mid @
       [Call (Command_startup 0), Call (Plugin_init (weechat_auto_load_plugins w') argv),
        Call (Command_startup 1), Call Upgrade_weechat_end]"
    using u by (simp add: ls w2(2) p)
  then show ?thesis
    using e m by (rule that)
qed

lemma init_upgrade_order:
  assumes "weechat_init env argv gui_init_cb (process_start h) = Returns w'"
    and "weechat_upgrading w' \<noteq> 0"
  shows "occurrences (Call Upgrade_weechat_load) (trace w') = 1 \<and>
         Call Secure_read \<in> set (before (Call Upgrade_weechat_load) (trace w')) \<and>
         Call Config_weechat_read \<in> set (before (Call Upgrade_weechat_load) (trace w')) \<and>
         filter banner_event (before (Call Upgrade_weechat_load) (trace w')) = [] \<and>
         occurrences (Call Upgrade_weechat_end) (trace w') = 1 \<and>
         last (trace w') = Call Upgrade_weechat_end \<and>
         Call Upgrade_weechat_load \<in> set (before (Call Upgrade_weechat_end) (trace w')) \<and>
         Call (Plugin_init (weechat_auto_load_plugins w') argv)
           \<in> set (before (Call Upgrade_weechat_end) (trace w'))"
proof -
  from assms obtain early mid where t: "trace w' = trace (process_start h) @ early @
       [Call Log_init, Call Plugin_api_init, Call Secure_read, Call Config_weechat_read,
        Call Network_init_gnutls] @
       (if gui_init_cb then [Call Gui_init_cb] else []) @
       Call Upgrade_weechat_load # mid @
       [Call (Command_startup 0), Call (Plugin_init (weechat_auto_load_plugins w') argv),
        Call (Command_startup 1), Call Upgrade_weechat_end]"
    and e: "list_all early_event early" and m: "list_all display_event mid"
    by (rule init_upgrade_trace)
  let ?pre = "early @
       [Call Log_init, Call Plugin_api_init, Call Secure_read, Call Config_weechat_read,
        Call Network_init_gnutls] @
       (if gui_init_cb then [Call Gui_init_cb] else [])"
  let ?rest = "mid @
       [Call (Command_startup 0), Call (Plugin_init (weechat_auto_load_plugins w') argv),
        Call (Command_startup 1)]"
  have tr: "trace w' = ?pre @ Call Upgrade_weechat_load # ?rest @ [Call Upgrade_weechat_end]"
    by (simp add: t)
  have pre: "x \<noteq> Call Upgrade_weechat_load \<and> x \<noteq> Call Upgrade_weechat_end"
    if "x \<in> set ?pre" for x
    using that e early_event_not(1,2) by (auto simp add: list_all_iff split: if_splits)
  have rest: "x \<noteq> Call Upgrade_weechat_load \<and> x \<noteq> Call Upgrade_weechat_end"
    if "x \<in> set ?rest" for x
    using that m display_event_not by (auto simp add: list_all_iff)
  have ab: "Call Upgrade_weechat_load \<noteq> Call Upgrade_weechat_end"
    by simp
  note o = trace_order [OF tr ab pre rest]
  have b: "filter banner_event ?pre = []"
    using e early_event_not(3) by (auto simp add: list_all_iff filter_empty_conv)
  show ?thesis
    using o b by simp
qed

subsection \<open>\<open>weechat_shutdown\<close> on strings that are not valid\<close>

lemma shutdown_invalid:
  assumes "\<not> strings_valid w"
  shows "undefined_behaviour (weechat_shutdown env return_code crash w)"
  using assms
  apply (cases "weechat_argv0 w"; cases "weechat_home w"; cases "weechat_local_charset w")
  apply (auto simp add: strings_valid_def live_iff weechat_shutdown_def free_if_def
      free_block_def calls_def call_def gui_chat_print_lines_waiting_buffer_def emit_def)
  done

lemma teardown_pointers [simp]:
  "weechat_argv0 (teardown env w) = weechat_argv0 w"
  "weechat_home (teardown env w) = weechat_home w"
  "weechat_local_charset (teardown env w) = weechat_local_charset w"
  by (simp_all add: teardown_def)

lemma strings_valid_teardown:
  assumes "strings_valid w"
  shows "strings_valid (teardown env w) =
           (addrs [weechat_argv0 w, weechat_home w, weechat_local_charset w] = [])"
  using assms
  by (cases "weechat_argv0 w"; cases "weechat_home w"; cases "weechat_local_charset w")
     (auto simp add: strings_valid_def live_iff teardown_def)

lemma teardown_nothing:
  assumes "addrs [weechat_argv0 w, weechat_home w, weechat_local_charset w] = []"
  shows "heap (teardown env w) = heap w"
    and "filter is_free (trace (teardown env w)) = filter is_free (trace w)"
  using assms by (simp_all add: teardown_def)

lemma world1_after:
  "weechat_shutdown env0 (- 1) 0 world1 = Returns (teardown env0 world1)"
  "\<not> strings_valid (teardown env0 world1)"
  using strings_valid_world1
  by (simp_all add: shutdown_valid finish_def strings_valid_teardown world1_def
      initial_world_def)

lemma teardown_frees:
  "filter is_free (trace (teardown env w)) =
     filter is_free (trace w) @
     map Free (addrs [weechat_argv0 w, weechat_home w, weechat_local_charset w])"
  by (simp add: teardown_def filter_map comp_def)

subsection \<open>Signals\<close>

lemma sigtable_catch_signals:
  "sigtable (catch_signals env w) SIGINT = SIG_IGN"
  "sigtable (catch_signals env w) SIGPIPE = SIG_IGN"
  "sigtable (catch_signals env w) SIGQUIT = Weechat_sigquit"
  "sigtable (catch_signals env w) SIGHUP = Weechat_sighup"
  "sigtable (catch_signals env w) SIGTERM = Weechat_sigterm"
  "sigtable (catch_signals env w) SIGSEGV = Debug_sigsegv"
  by (simp_all add: catch_signals_def util_catch_signal_def call_def)

lemma init_sigtable:
  assumes "weechat_init env argv gui_init_cb w = Returns w'"
  shows "sigtable w' = sigtable (catch_signals env w)"
proof -
  from assms obtain w2 evs where "w' = init_after_home env argv gui_init_cb w2"
    "sigtable w2 = sigtable (catch_signals env w)"
    by (rule init_returns_shape)
  then show ?thesis
    by (simp add: init_after_home_fields)
qed

lemma frame_quit_signal: "frame P w w' \<Longrightarrow> weechat_quit_signal w' = weechat_quit_signal w"
  by (simp add: frame_def)

lemma init_quit_signal:
  "weechat_quit_signal (world_of (weechat_init env argv gui_init_cb w)) = weechat_quit_signal w"
proof -
  have s: "weechat_quit_signal (world_of (weechat_shutdown env rc crash w0)) =
           weechat_quit_signal w0" for rc crash w0
    using frame_shutdown [of w0 env rc crash] by (rule frame_quit_signal)
  have b: "weechat_quit_signal (before_args env w) = weechat_quit_signal w"
    by (rule at_secure_init_fields(4))
  have a: "weechat_quit_signal (at_secure_init env w) = weechat_quit_signal w"
    using b by (simp add: at_secure_init_fields(6) call_def)
  let ?r1 = "weechat_parse_args env argv (before_args env w)"
  have p: "weechat_quit_signal (world_of ?r1) = weechat_quit_signal w"
    using frame_parse_args [of "before_args env w" env argv] b
    by (simp add: frame_quit_signal)
  have c: "weechat_quit_signal (world_of (weechat_create_home_dir env w1)) =
           weechat_quit_signal w1" for w1
    using frame_create_home_dir [OF frame_refl, of w1 env] by (rule frame_quit_signal)
  have t: "weechat_quit_signal
             (world_of (seq (weechat_create_home_dir env w1)
                (\<lambda>w. Returns (init_after_home env argv gui_init_cb w)))) =
           weechat_quit_signal w1" for w1
    using c [of w1]
    by (cases "weechat_create_home_dir env w1") (simp_all add: init_after_home_fields)
  have "weechat_quit_signal
          (world_of (seq ?r1 (\<lambda>w. seq (weechat_create_home_dir env w)
             (\<lambda>w. Returns (init_after_home env argv gui_init_cb w))))) = weechat_quit_signal w"
    using p t by (cases ?r1) simp_all
  then show ?thesis
    by (simp add: weechat_init_eq s a b)
qed

lemma end_quit_signal:
  "weechat_quit_signal (world_of (weechat_end env gui_end_cb w)) = weechat_quit_signal w"
proof -
  have s: "weechat_quit_signal (world_of (weechat_shutdown env rc crash w0)) =
           weechat_quit_signal w0" for rc crash w0
    using frame_shutdown [of w0 env rc crash] by (rule frame_quit_signal)
  show ?thesis
    by (simp add: weechat_end_def Let_def s calls_def call_def)
qed

lemma shutdown_quit_signal:
  "weechat_quit_signal (world_of (weechat_shutdown env return_code crash w)) =
   weechat_quit_signal w"
  using frame_shutdown [of w env return_code crash] by (rule frame_quit_signal)

lemma run_plain:
  "returned (weechat_init env0 [''weechat''] True (process_start False))"
proof -
  have "resolves env0 (dir_arg (tl [''weechat'']))
       (weechat_init env0 [''weechat''] True (process_start False))"
    by (rule init_resolves) simp_all
  then show ?thesis
    by (auto simp add: resolves_def resolve_home_def expand_home_def dir_failure_def home_is_def)
qed

subsection \<open>Fatal endings\<close>

lemma seq_Exits:
  "seq r f = Exits c w' \<longleftrightarrow> r = Exits c w' \<or> (\<exists>w1. r = Returns w1 \<and> f w1 = Exits c w')"
  by (cases r) auto

lemma free_if_not_Exits: "free_if p w \<noteq> Exits c w'"
  by (cases p) (simp_all add: free_if_def free_block_def)

lemma shutdown_exit_code:
  "weechat_shutdown env rc crash w = Exits c w' \<Longrightarrow> c = rc"
  by (auto simp add: weechat_shutdown_def seq_Exits free_if_not_Exits split: if_splits)

lemma shutdown_exit_trace:
  assumes "weechat_shutdown env rc crash w = Exits c w'"
  shows "set (trace w) \<subseteq> set (trace w')"
  using frame_shutdown [of w env rc crash] assms by (auto simp add: frame_def)

lemma loud_simps [simp]: "loud (Returns w)" "loud (Undefined_behaviour w)"
  by (simp_all add: loud_def)

lemma loud_seq:
  assumes "loud r" and "\<And>w1. r = Returns w1 \<Longrightarrow> loud (f w1)"
  shows "loud (seq r f)"
  using assms by (cases r) auto

lemma loud_fatal:
  assumes "is_error m"
  shows "loud (seq (weechat_shutdown env EXIT_FAILURE 0 (string_fprintf Stderr m w)) Returns)"
proof -
  have "c = EXIT_FAILURE \<and> (\<exists>m. is_error m \<and> Fprintf Stderr m \<in> set (trace w'))"
    if "weechat_shutdown env EXIT_FAILURE 0 (string_fprintf Stderr m w) = Exits c w'" for c w'
  proof -
    have "Fprintf Stderr m \<in> set (trace (string_fprintf Stderr m w))"
      by (simp add: string_fprintf_def emit_def)
    then have "Fprintf Stderr m \<in> set (trace w')"
      using shutdown_exit_trace [OF that] by blast
    then show ?thesis
      using shutdown_exit_code [OF that] assms by blast
  qed
  then show ?thesis
    by (simp add: loud_def EXIT_FAILURE_def)
qed

lemma loud_set_home_path: "loud (weechat_set_home_path env p w)"
proof -
  have nm: "loud
      (case strdup env s w of
         (p, w) \<Rightarrow>
           if weechat_home (w\<lparr>weechat_home := p\<rparr>) = None then
             seq (weechat_shutdown env EXIT_FAILURE 0
                    (string_fprintf Stderr Err_no_memory (w\<lparr>weechat_home := p\<rparr>))) Returns
           else Returns (w\<lparr>weechat_home := p\<rparr>))" for s
    using loud_fatal [of Err_no_memory] by (simp add: case_prod_beta)
  show ?thesis
  proof (cases p)
    case Nil
    then show ?thesis using nm [of "[]"] by (simp add: weechat_set_home_path_def)
  next
    case (Cons c path1)
    show ?thesis
    proof (cases "getenv env ''HOME''")
      case None
      then show ?thesis
        using Cons nm [of p] loud_fatal [of Err_no_HOME env w]
        by (simp add: weechat_set_home_path_def)
    next
      case (Some h)
      then show ?thesis
        using Cons nm [of p] nm [of "h @ path1"]
        by (simp add: weechat_set_home_path_def)
    qed
  qed
qed

lemma loud_create_dir: "loud (create_dir env w)"
proof (cases "cstr w (weechat_home w)")
  case None
  then show ?thesis by (simp add: create_dir_def)
next
  case (Some path)
  show ?thesis
    using Some loud_fatal [of "Err_not_a_directory path" env "call env (Stat path) w"]
      loud_fatal [of "Err_cannot_create path" env
        "call env (Util_mkdir path 493) (call env (Stat path) w)"]
    by (simp add: create_dir_def Let_def)
qed

lemma loud_create_home_dir: "loud (weechat_create_home_dir env w)"
  unfolding weechat_create_home_dir_def
proof (rule loud_seq)
  show "loud (if weechat_home w = None
        then case getenv env ''WEECHAT_HOME'' of None \<Rightarrow> Returns w
             | Some ptr_weechat_home \<Rightarrow>
                 if ptr_weechat_home \<noteq> [] then weechat_set_home_path env ptr_weechat_home w
                 else Returns w
        else Returns w)"
    using loud_set_home_path by (simp split: option.split)
next
  fix w1
  show "loud (if weechat_home w1 = None
             then if config_weechat_home env = []
                  then seq (weechat_shutdown env EXIT_FAILURE 0
                              (string_fprintf Stderr Err_home_undefined w1))
                        Returns
                  else seq (weechat_set_home_path env (config_weechat_home env) w1)
                        (create_dir env)
             else create_dir env w1)"
    using loud_create_dir loud_fatal [of Err_home_undefined env w1]
      loud_seq [of "weechat_set_home_path env (config_weechat_home env) w1" "create_dir env",
        OF loud_set_home_path loud_create_dir]
    by simp
qed

lemma stderr_out_before_args [simp]: "filter stderr_out (before_args_events env) = []"
  by (simp add: before_args_events_def)

lemma stderr_out_at_secure_init:
  "filter stderr_out (trace (at_secure_init env (process_start h))) = []"
proof -
  have "trace (before_args env (process_start h)) =
        trace (at_secure_init env (process_start h)) @ [Call Config_weechat_init]"
    by (simp add: at_secure_init_fields(6) call_def)
  then have "before_args_events env =
        trace (at_secure_init env (process_start h)) @ [Call Config_weechat_init]"
    by (simp add: at_secure_init_fields(1))
  then have "filter stderr_out (trace (at_secure_init env (process_start h)) @
               [Call Config_weechat_init]) = []"
    using stderr_out_before_args [of env] by metis
  then show ?thesis
    by simp
qed

lemma stderr_out_teardown:
  "filter stderr_out (trace (teardown env w)) =
     filter stderr_out (trace w) @ map (Line_out (Some Stderr)) (lines_waiting w)"
  by (simp add: teardown_def filter_map comp_def)

lemma init_exits:
  assumes "weechat_init env argv gui_init_cb (process_start h) = Exits c w'"
    and "c \<noteq> EXIT_SUCCESS"
  shows "c = EXIT_FAILURE \<and>
         (if secure_init_ok env \<and> config_weechat_init_ok env
          then \<exists>m. is_error m \<and> Fprintf Stderr m \<in> set (trace w')
          else filter stderr_out (trace w') =
                 map (Line_out (Some Stderr))
                   (lines_waiting (if secure_init_ok env then before_args env (process_start h)
                                   else at_secure_init env (process_start h))))"
proof (cases "secure_init_ok env")
  case False
  have "strings_valid (at_secure_init env (process_start h))"
    by (intro heap_inv_valid heap_inv_at_secure_init heap_inv_start)
  then show ?thesis
    using assms False
    by (auto simp add: weechat_init_eq shutdown_valid finish_def EXIT_FAILURE_def
        stderr_out_teardown stderr_out_at_secure_init)
next
  case s: True
  show ?thesis
  proof (cases "config_weechat_init_ok env")
    case False
    have "strings_valid (before_args env (process_start h))"
      by (intro heap_inv_valid heap_inv_before_args heap_inv_start)
    then show ?thesis
      using assms False s
      by (auto simp add: weechat_init_eq shutdown_valid finish_def EXIT_FAILURE_def
          stderr_out_teardown at_secure_init_fields(1))
  next
    case True
    let ?w0 = "before_args env (process_start h)"
    have inv: "heap_inv (args_start env argv ?w0)"
      by (intro heap_inv_args_start heap_inv_before_args heap_inv_start)
    note ps = parse_scan [OF inv, where args = "tl argv" and env = env
        and ?argv0.0 = "argv0_of argv"]
    have e: "seq (weechat_parse_args env argv ?w0)
               (\<lambda>w. seq (weechat_create_home_dir env w)
               (\<lambda>w. Returns (init_after_home env argv gui_init_cb w))) = Exits c w'"
      using assms(1) s True by (simp add: weechat_init_eq)
    show ?thesis
    proof (cases "scan (tl argv)")
      case Parsed
      then obtain w1 where w1: "weechat_parse_args env argv ?w0 = Returns w1"
        using ps by (auto simp add: parse_args_eq)
      have "weechat_create_home_dir env w1 = Exits c w'"
        using e by (auto simp add: w1 seq_Exits)
      then show ?thesis
        using loud_create_home_dir [of env w1] s True by (simp add: loud_def)
    next
      case (Info a)
      then show ?thesis
        using ps e assms(2) by (auto simp add: parse_args_eq EXIT_SUCCESS_def)
    next
      case (Missing a)
      then obtain w1 where "weechat_parse_args env argv ?w0 = Exits 1 w1"
        "Fprintf Stderr (Err_missing_argument a) \<in> set (trace w1)"
        using ps by (auto simp add: parse_args_eq)
      then show ?thesis
        using e s True by (auto simp add: EXIT_FAILURE_def intro!: exI [of _ "Err_missing_argument a"])
    qed
  qed
qed

lemma env_secure_fails_simps [simp]:
  "\<not> secure_init_ok env_secure_fails" "ext_lines env_secure_fails c = []"
  by (simp_all add: env_secure_fails_def env0_def)

lemma run_secure_fails:
  "exit_code (weechat_init env_secure_fails [''weechat''] True (process_start False)) =
     Some EXIT_FAILURE \<and>
   filter stderr_out
     (trace (world_of (weechat_init env_secure_fails [''weechat''] True (process_start False))))
     = []"
  by (simp add: run env_secure_fails_def)

lemma exit_code_world_of: "exit_code r = Some c \<Longrightarrow> r = Exits c (world_of r)"
  by (cases r) simp_all

section \<open>The claims\<close>

text \<open>
  C1 (amended). For every argument list in which the option scan reaches an
  informational option (\<open>-c\<close>, \<open>-h\<close>, \<open>-l\<close>, \<open>-v\<close> or their long forms), that is, the option
  is not taken as the value of a preceding \<open>-d\<close> or \<open>-r\<close>, and provided \<open>secure_init\<close> and
  \<open>config_weechat_init\<close> succeeded: the process exits with the success code after the
  output of that option; no step of \<open>weechat_init\<close> that follows the parsing of the
  arguments is ever invoked; and of the initializer steps the specification names, those
  that precede the parsing (registry init, gcrypt init, secure-store init,
  configuration-store init) have been invoked, the others (GnuTLS, UI and plugin init)
  have not.
\<close>

theorem info_flag_exits:
  assumes "secure_init_ok env" and "config_weechat_init_ok env"
    and "scan (tl argv) = Info a"
  shows "\<exists>w'. weechat_init env argv gui_init_cb (process_start h) = Exits EXIT_SUCCESS w' \<and>
           info_event (argv0_of argv) a \<in> set (trace w') \<and>
           filter after_args_step (trace w') = [] \<and>
           filter initializer_step (trace w') =
             [Call Hdata_init, Call Hook_init, Call Network_init_gcrypt, Call Secure_init,
              Call Config_weechat_init]"
proof -
  obtain w' evs where w': "weechat_init env argv gui_init_cb (process_start h) = Exits 0 w'"
    "info_event (argv0_of argv) a \<in> set (trace w')"
    "trace w' = trace (process_start h) @ before_args_events env @ evs"
    "list_all parse_event evs"
    using init_info [OF assms heap_inv_start] by blast
  have 1: "filter after_args_step evs = []"
    using w'(4) parse_event_not_after_args by (rule filter_none)
  have 2: "filter initializer_step evs = []"
    using w'(4) parse_event_not_initializer by (rule filter_none)
  show ?thesis
    using w'(1,2) by (simp add: w'(3) 1 2 before_args_events_def EXIT_SUCCESS_def)
qed

theorem info_flag_exits_witness:
  "secure_init_ok env0 \<and> config_weechat_init_ok env0 \<and>
   scan (tl [''weechat'', ''-p'', ''--version'']) = Info ''--version'' \<and>
   exit_code (weechat_init env0 [''weechat'', ''-p'', ''--version''] True (process_start False))
     = Some EXIT_SUCCESS"
proof -
  have s: "scan (tl [''weechat'', ''-p'', ''--version'']) = Info ''--version''"
    by simp
  show ?thesis
    using info_flag_exits [of env0 "[''weechat'', ''-p'', ''--version'']" "''--version''" True False, OF _ _ s] s
    by auto
qed

theorem info_flag_counterexample:
  "''--help'' \<in> set [''weechat'', ''--help''] \<and>
   exit_code (weechat_init env0 [''weechat'', ''--help''] True initial_world)
     = Some EXIT_SUCCESS \<and>
   filter initializer_step
     (trace (world_of (weechat_init env0 [''weechat'', ''--help''] True initial_world))) =
   [Call Hdata_init, Call Hook_init, Call Network_init_gcrypt, Call Secure_init,
    Call Config_weechat_init] \<and>
   ''--help'' \<in> set [''weechat'', ''--dir'', ''--help''] \<and>
   returned (weechat_init env0 [''weechat'', ''--dir'', ''--help''] True (process_start False))"
proof -
  have "resolves env0 (dir_arg (tl [''weechat'', ''--dir'', ''--help'']))
       (weechat_init env0 [''weechat'', ''--dir'', ''--help''] True (process_start False))"
    by (rule init_resolves) simp_all
  then have "returned
       (weechat_init env0 [''weechat'', ''--dir'', ''--help''] True (process_start False))"
    by (auto simp add: resolves_def resolve_home_def dir_failure_def home_is_def)
  then show ?thesis
    using run_help run_help_steps by simp
qed

text \<open>
  C2 (amended). Provided \<open>secure_init\<close> and \<open>config_weechat_init\<close> succeed, the arguments
  are parsed to their end (no informational option and no value option without its
  value) and no memory allocation fails, the home directory is, in priority order: the
  value of \<open>-d\<close>/\<open>--dir\<close>, taken as it is (a leading \<open>~\<close> in it is not expanded); else
  a non-empty \<open>WEECHAT_HOME\<close>; else the compiled-in default; and in the last two a leading
  \<open>~\<close> is replaced by the value of \<open>HOME\<close>, so that with \<open>HOME=/tmp/u\<close> and
  \<open>WEECHAT_HOME=~/.x\<close> the home directory is \<open>/tmp/u/.x\<close>. The process ends with the
  failure code and a diagnostic on the error stream if \<open>HOME\<close> is unset while \<open>~\<close> is
  used, if the compiled-in default is empty, if the path exists and is not a directory,
  or if the directory cannot be created.
\<close>

theorem home_resolution:
  assumes "secure_init_ok env" and "config_weechat_init_ok env"
    and "\<forall>n. \<not> alloc_fails env n" and "scan (tl argv) = Parsed"
  shows "case resolve_home env (dir_arg (tl argv)) of
           Inl m \<Rightarrow> fatal_with (weechat_init env argv gui_init_cb (process_start h)) m
         | Inr d \<Rightarrow>
             (case dir_failure env d of
                Some m \<Rightarrow> fatal_with (weechat_init env argv gui_init_cb (process_start h)) m
              | None \<Rightarrow> home_of (weechat_init env argv gui_init_cb (process_start h)) = Some d
                         \<and> returned (weechat_init env argv gui_init_cb (process_start h)))"
  using init_resolves [OF assms heap_inv_start, of gui_init_cb h]
  by (auto simp add: resolves_def home_is_def home_of_def split: sum.splits option.splits)

theorem home_resolution_witness:
  "secure_init_ok env1 \<and> config_weechat_init_ok env1 \<and> (\<forall>n. \<not> alloc_fails env1 n) \<and>
   scan (tl [''weechat'']) = Parsed \<and>
   home_of (weechat_init env1 [''weechat''] True (process_start False)) = Some ''/tmp/u/.x''"
  using home_resolution [of env1 "[''weechat'']" True False]
  by (simp add: resolve_home_def expand_home_def dir_failure_def)

theorem home_resolution_counterexample:
  "getenv env0 ''HOME'' = Some ''/tmp/u'' \<and>
   returned (weechat_init env0 [''weechat'', ''-d'', ''~/.x''] True (process_start False)) \<and>
   home_of (weechat_init env0 [''weechat'', ''-d'', ''~/.x''] True (process_start False))
     = Some ''~/.x''"
proof -
  have "resolves env0 (dir_arg (tl [''weechat'', ''-d'', ''~/.x'']))
       (weechat_init env0 [''weechat'', ''-d'', ''~/.x''] True (process_start False))"
    by (rule init_resolves) simp_all
  then show ?thesis
    by (auto simp add: resolves_def resolve_home_def dir_failure_def home_is_def home_of_def)
qed

text \<open>
  C3 (amended). For every launch whose upgrade marker is set and whose initialisation
  completes, the upgrade counter is incremented by exactly 1 and the handoff files are
  deleted (\<open>upgrade_weechat_end\<close> is called), whether the restore succeeded or not:
  the result of \<open>upgrade_weechat_load\<close> is not read.
\<close>

theorem upgrade_counter:
  assumes "weechat_init env argv gui_init_cb w = Returns w'" and "weechat_upgrading w' \<noteq> 0"
  shows "weechat_upgrade_count w' = weechat_upgrade_count w + 1 \<and> \<not> upgrade_files w' \<and>
         Call Upgrade_weechat_end \<in> set (trace w')"
  using assms by (rule init_upgrade_effect)

theorem upgrade_counter_witness:
  "returned (weechat_init env0 [''weechat'', ''--upgrade''] True (process_start True)) \<and>
   weechat_upgrading
     (world_of (weechat_init env0 [''weechat'', ''--upgrade''] True (process_start True))) \<noteq> 0 \<and>
   upgrade_files (process_start True) \<and>
   weechat_upgrade_count
     (world_of (weechat_init env0 [''weechat'', ''--upgrade''] True (process_start True))) = 1 \<and>
   \<not> upgrade_files
     (world_of (weechat_init env0 [''weechat'', ''--upgrade''] True (process_start True)))"
proof -
  let ?r = "weechat_init env0 [''weechat'', ''--upgrade''] True (process_start True)"
  have r: "?r = Returns (world_of ?r)" and u: "weechat_upgrading (world_of ?r) \<noteq> 0"
    using run_upgrade by simp_all
  have "returned ?r"
    using r by (metis returned.simps(1))
  then show ?thesis
    using upgrade_counter [OF r u] u by simp
qed

theorem upgrade_counter_counterexample:
  "\<not> upgrade_load_ok env_fail \<and> upgrade_files (process_start True) \<and>
   returned (weechat_init env_fail [''weechat'', ''--upgrade''] True (process_start True)) \<and>
   weechat_upgrade_count
     (world_of (weechat_init env_fail [''weechat'', ''--upgrade''] True (process_start True))) =
     weechat_upgrade_count (process_start True) + 1 \<and>
   \<not> upgrade_files
     (world_of (weechat_init env_fail [''weechat'', ''--upgrade''] True (process_start True)))"
proof -
  let ?r = "weechat_init env_fail [''weechat'', ''--upgrade''] True (process_start True)"
  have r: "?r = Returns (world_of ?r)" and u: "weechat_upgrading (world_of ?r) \<noteq> 0"
    using run_upgrade_fail by simp_all
  have "returned ?r"
    using r by (metis returned.simps(1))
  then show ?thesis
    using init_upgrade_effect [OF r u] by (simp add: env_fail_def)
qed

text \<open>
  C4 (amended). In every launch whose upgrade marker is set and whose initialisation
  completes: the restore step (\<open>upgrade_weechat_load\<close>) runs exactly once, after the
  secure-store read and the configuration read, and nothing of the startup banner is
  displayed before it; the handoff cleanup (\<open>upgrade_weechat_end\<close>) runs exactly once
  and is the last step of the initialisation, so the restore step and every later
  initializer step, plugin init included, come before it. The cleanup runs whether the
  restore succeeded or not: it does not wait for a successful restore.
\<close>

theorem restore_order:
  assumes "weechat_init env argv gui_init_cb (process_start h) = Returns w'"
    and "weechat_upgrading w' \<noteq> 0"
  shows "occurrences (Call Upgrade_weechat_load) (trace w') = 1 \<and>
         Call Secure_read \<in> set (before (Call Upgrade_weechat_load) (trace w')) \<and>
         Call Config_weechat_read \<in> set (before (Call Upgrade_weechat_load) (trace w')) \<and>
         filter banner_event (before (Call Upgrade_weechat_load) (trace w')) = [] \<and>
         occurrences (Call Upgrade_weechat_end) (trace w') = 1 \<and>
         last (trace w') = Call Upgrade_weechat_end \<and>
         Call Upgrade_weechat_load \<in> set (before (Call Upgrade_weechat_end) (trace w')) \<and>
         Call (Plugin_init (weechat_auto_load_plugins w') argv)
           \<in> set (before (Call Upgrade_weechat_end) (trace w'))"
  using assms by (rule init_upgrade_order)

theorem restore_order_witness:
  "returned (weechat_init env0 [''weechat'', ''--upgrade''] True (process_start True)) \<and>
   weechat_upgrading
     (world_of (weechat_init env0 [''weechat'', ''--upgrade''] True (process_start True))) \<noteq> 0 \<and>
   occurrences (Call Upgrade_weechat_load)
     (trace (world_of (weechat_init env0 [''weechat'', ''--upgrade''] True (process_start True))))
     = 1 \<and>
   last (trace (world_of (weechat_init env0 [''weechat'', ''--upgrade''] True (process_start True))))
     = Call Upgrade_weechat_end"
proof -
  let ?r = "weechat_init env0 [''weechat'', ''--upgrade''] True (process_start True)"
  have r: "?r = Returns (world_of ?r)" and u: "weechat_upgrading (world_of ?r) \<noteq> 0"
    using run_upgrade by simp_all
  have "returned ?r"
    using r by (metis returned.simps(1))
  then show ?thesis
    using restore_order [OF r u] u by simp
qed

theorem restore_order_counterexample:
  "\<not> upgrade_load_ok env_fail \<and>
   returned (weechat_init env_fail [''weechat'', ''--upgrade''] True (process_start True)) \<and>
   occurrences (Call Upgrade_weechat_end)
     (trace (world_of
        (weechat_init env_fail [''weechat'', ''--upgrade''] True (process_start True)))) = 1 \<and>
   upgrade_files (process_start True) \<and>
   \<not> upgrade_files
     (world_of (weechat_init env_fail [''weechat'', ''--upgrade''] True (process_start True)))"
proof -
  let ?r = "weechat_init env_fail [''weechat'', ''--upgrade''] True (process_start True)"
  have r: "?r = Returns (world_of ?r)" and u: "weechat_upgrading (world_of ?r) \<noteq> 0"
    using run_upgrade_fail by simp_all
  have "returned ?r"
    using r by (metis returned.simps(1))
  then show ?thesis
    using init_upgrade_order [OF r u] init_upgrade_effect [OF r u] by (simp add: env_fail_def)
qed

text \<open>
  C5 (amended). For every call \<open>weechat_shutdown (return_code, crash)\<close> made while each
  of the three strings is null or a live block of its own (as in the first call of a
  process): the whole teardown runs (the waiting lines are flushed to the error stream,
  \<open>log_close\<close>, \<open>network_end\<close>, \<open>debug_end\<close>, the three guarded frees), and then the
  process aborts if \<open>crash\<close> is set, whatever \<open>return_code\<close> is; otherwise exits with
  exactly \<open>return_code\<close> if that is not negative; otherwise the function returns to its
  caller. In every other state, such as the one a returning call leaves when a string
  was allocated, the call frees a block that is not live and has no defined outcome.
\<close>

theorem shutdown_contract:
  "(strings_valid w \<longrightarrow>
      weechat_shutdown env return_code crash w =
        (if crash \<noteq> 0 then Aborts (teardown env w)
         else if 0 \<le> return_code then Exits return_code (teardown env w)
         else Returns (teardown env w)) \<and>
      trace (teardown env w) =
        trace w @ Call (Gui_chat_print_lines_waiting_buffer (Some Stderr))
          # map (Line_out (Some Stderr)) (lines_waiting w)
          @ [Call Log_close, Call Network_end, Call Debug_end]
          @ map Free (addrs [weechat_argv0 w, weechat_home w, weechat_local_charset w]) \<and>
      heap (teardown env w) =
        (\<lambda>a. if a \<in> set (addrs [weechat_argv0 w, weechat_home w, weechat_local_charset w])
             then None else heap w a)) \<and>
   (\<not> strings_valid w \<longrightarrow>
      undefined_behaviour (weechat_shutdown env return_code crash w))"
  using shutdown_valid [of w env return_code crash] shutdown_invalid [of w env return_code crash]
  by (simp add: finish_def teardown_def)

theorem shutdown_contract_witness:
  "strings_valid world1 \<and>
   weechat_shutdown env0 3 1 world1 = Aborts (teardown env0 world1) \<and>
   weechat_shutdown env0 3 0 world1 = Exits 3 (teardown env0 world1) \<and>
   weechat_shutdown env0 (- 1) 0 world1 = Returns (teardown env0 world1) \<and>
   trace (teardown env0 world1) =
     [Call (Gui_chat_print_lines_waiting_buffer (Some Stderr)),
      Call Log_close, Call Network_end, Call Debug_end, Free 1] \<and>
   \<not> strings_valid (teardown env0 world1) \<and>
   undefined_behaviour (weechat_shutdown env0 3 1 (teardown env0 world1))"
  using shutdown_contract [of world1 env0 3 1] shutdown_contract [of world1 env0 3 0]
    shutdown_contract [of world1 env0 "- 1" 0]
    shutdown_contract [of "teardown env0 world1" env0 3 1]
    strings_valid_world1 world1_after(2)
  by (simp add: world1_def initial_world_def)

theorem shutdown_contract_counterexample:
  "returned (weechat_shutdown env0 (- 1) 0 world1) \<and>
   undefined_behaviour
     (weechat_shutdown env0 3 1 (world_of (weechat_shutdown env0 (- 1) 0 world1))) \<and>
   undefined_behaviour
     (weechat_shutdown env0 3 0 (world_of (weechat_shutdown env0 (- 1) 0 world1))) \<and>
   undefined_behaviour
     (weechat_shutdown env0 (- 1) 0 (world_of (weechat_shutdown env0 (- 1) 0 world1)))"
  by (simp add: world1_after shutdown_invalid)

text \<open>
  C6 (amended). In a call of \<open>weechat_shutdown\<close> made while the three strings are null or
  live blocks of their own, each string that was allocated is freed exactly once and
  each free is skipped when its pointer is null. The pointers are not set to null after
  the free, so a second call in sequence (both with a negative \<open>return_code\<close> and \<open>crash\<close>
  unset) returns, freeing nothing, exactly when none of the three strings was allocated
  at the first call; when one was, the second call frees a block that is no longer live.
\<close>

theorem shutdown_twice:
  assumes "strings_valid w" and "return_code < 0" and "return_code' < 0"
  shows "weechat_shutdown env return_code 0 w = Returns (teardown env w) \<and>
         filter is_free (trace (teardown env w)) =
           filter is_free (trace w) @
           map Free (addrs [weechat_argv0 w, weechat_home w, weechat_local_charset w]) \<and>
         distinct (addrs [weechat_argv0 w, weechat_home w, weechat_local_charset w]) \<and>
         (if addrs [weechat_argv0 w, weechat_home w, weechat_local_charset w] = []
          then weechat_shutdown env return_code' 0 (teardown env w) =
                 Returns (teardown env (teardown env w)) \<and>
               filter is_free (trace (teardown env (teardown env w))) =
                 filter is_free (trace w) \<and>
               heap (teardown env (teardown env w)) = heap w
          else undefined_behaviour (weechat_shutdown env return_code' 0 (teardown env w)))"
proof (cases "addrs [weechat_argv0 w, weechat_home w, weechat_local_charset w] = []")
  case True
  have d: "distinct (addrs [weechat_argv0 w, weechat_home w, weechat_local_charset w])"
    using True by simp
  from True have v: "strings_valid (teardown env w)"
    using assms(1) by (simp add: strings_valid_teardown)
  have a: "addrs [weechat_argv0 (teardown env w), weechat_home (teardown env w),
                  weechat_local_charset (teardown env w)] = []"
    using True by simp
  show ?thesis
    using assms True teardown_nothing [OF a, of env] teardown_nothing [OF True, of env]
    by (simp add: shutdown_valid v finish_def teardown_frees)
next
  case False
  have d: "distinct (addrs [weechat_argv0 w, weechat_home w, weechat_local_charset w])"
    using assms(1) by (simp add: strings_valid_def)
  from False have "\<not> strings_valid (teardown env w)"
    using assms(1) by (simp add: strings_valid_teardown)
  then show ?thesis
    using assms False d
    by (simp add: shutdown_valid finish_def shutdown_invalid teardown_frees)
qed

theorem shutdown_twice_witness:
  "strings_valid initial_world \<and> (- 1 :: int) < 0 \<and>
   weechat_shutdown env0 (- 1) 0 initial_world = Returns (teardown env0 initial_world) \<and>
   weechat_shutdown env0 (- 1) 0 (teardown env0 initial_world) =
     Returns (teardown env0 (teardown env0 initial_world)) \<and>
   heap (teardown env0 (teardown env0 initial_world)) = heap initial_world \<and>
   strings_valid world1 \<and>
   weechat_shutdown env0 (- 1) 0 world1 = Returns (teardown env0 world1) \<and>
   undefined_behaviour (weechat_shutdown env0 (- 1) 0 (teardown env0 world1))"
proof -
  have v: "strings_valid initial_world"
    by (simp add: strings_valid_def initial_world_def live_iff)
  have n: "(- 1 :: int) < 0"
    by simp
  show ?thesis
    using shutdown_twice [OF v n n, of env0] shutdown_twice [OF strings_valid_world1 n n, of env0]
      v strings_valid_world1
    by (simp add: initial_world_def world1_def)
qed

theorem shutdown_twice_counterexample:
  "returned (weechat_parse_args env0 [''weechat''] initial_world) \<and>
   returned (weechat_shutdown env0 (- 1) 0
               (world_of (weechat_parse_args env0 [''weechat''] initial_world))) \<and>
   undefined_behaviour
     (weechat_shutdown env0 (- 1) 0
        (world_of (weechat_shutdown env0 (- 1) 0
                     (world_of (weechat_parse_args env0 [''weechat''] initial_world))))) \<and>
   filter is_free
     (trace (world_of (weechat_shutdown env0 (- 1) 0
        (world_of (weechat_shutdown env0 (- 1) 0
                     (world_of (weechat_parse_args env0 [''weechat''] initial_world)))))))
     = [Free 1, Free 1]"
  by (simp add: run)

text \<open>
  C7 (amended). After the installation of the signal handlers, \<open>SIGINT\<close> and \<open>SIGPIPE\<close>
  are ignored: their delivery changes nothing, and in particular does not set the
  pending quit signal. \<open>SIGQUIT\<close> is first set to be ignored (line 629) and then given the
  handler \<open>weechat_sigquit\<close> (line 633), which replaces the first setting: its delivery
  sets the pending quit signal to \<open>SIGQUIT\<close> and changes nothing else. This holds right
  after the installation and in the state in which \<open>weechat_init\<close> returns.
\<close>

theorem signals_ignored:
  "deliver env SIGINT (catch_signals env w) = Returns (catch_signals env w) \<and>
   deliver env SIGPIPE (catch_signals env w) = Returns (catch_signals env w) \<and>
   deliver env SIGQUIT (catch_signals env w) =
     Returns ((catch_signals env w)\<lparr>weechat_quit_signal := signo SIGQUIT\<rparr>) \<and>
   (weechat_init env argv gui_init_cb w = Returns w' \<longrightarrow>
      deliver env SIGINT w' = Returns w' \<and>
      deliver env SIGPIPE w' = Returns w' \<and>
      deliver env SIGQUIT w' = Returns (w'\<lparr>weechat_quit_signal := signo SIGQUIT\<rparr>))"
  using init_sigtable [of env argv gui_init_cb w w']
  by (auto simp add: deliver_def sigtable_catch_signals weechat_sigquit_def)

theorem signals_ignored_witness:
  "returned (weechat_init env0 [''weechat''] True (process_start False)) \<and>
   deliver env0 SIGINT (world_of (weechat_init env0 [''weechat''] True (process_start False))) =
     Returns (world_of (weechat_init env0 [''weechat''] True (process_start False))) \<and>
   weechat_quit_signal
     (world_of (deliver env0 SIGQUIT
        (world_of (weechat_init env0 [''weechat''] True (process_start False))))) = 3"
  using signals_ignored [of env0 "process_start False" "[''weechat'']" True
      "world_of (weechat_init env0 [''weechat''] True (process_start False))"]
    returned_world_of [OF run_plain] run_plain
  by simp

theorem signals_ignored_counterexample:
  "sigtable (catch_signals env0 initial_world) SIGQUIT \<noteq> SIG_IGN \<and>
   weechat_quit_signal (catch_signals env0 initial_world) = 0 \<and>
   weechat_quit_signal
     (world_of (deliver env0 SIGQUIT (catch_signals env0 initial_world))) = signo SIGQUIT \<and>
   signo SIGQUIT \<noteq> 0"
  by (simp add: deliver_def sigtable_catch_signals weechat_sigquit_def catch_signals_def
      util_catch_signal_def call_def initial_world_def)

text \<open>
  C8. Each of the handlers \<open>weechat_sighup\<close>, \<open>weechat_sigquit\<close> and \<open>weechat_sigterm\<close> does
  one thing: it stores the number of its own signal in \<open>weechat_quit_signal\<close>. It changes
  no other part of the state (nothing is allocated, printed or called), and the number
  it stores is not zero, so it never clears the flag. After the installation each of the
  three signals runs its own handler, so that its delivery stores that signal's number
  and changes nothing else. No other function of the file writes the flag:
  \<open>weechat_init\<close>, \<open>weechat_shutdown\<close> and \<open>weechat_end\<close> leave it as it is however they end.
\<close>

theorem handlers_store_signal:
  "weechat_sighup w = w\<lparr>weechat_quit_signal := 1\<rparr> \<and>
   weechat_sigquit w = w\<lparr>weechat_quit_signal := 3\<rparr> \<and>
   weechat_sigterm w = w\<lparr>weechat_quit_signal := 15\<rparr> \<and>
   signo SIGHUP = 1 \<and> signo SIGQUIT = 3 \<and> signo SIGTERM = 15 \<and>
   deliver env SIGHUP (catch_signals env w) =
     Returns ((catch_signals env w)\<lparr>weechat_quit_signal := signo SIGHUP\<rparr>) \<and>
   deliver env SIGQUIT (catch_signals env w) =
     Returns ((catch_signals env w)\<lparr>weechat_quit_signal := signo SIGQUIT\<rparr>) \<and>
   deliver env SIGTERM (catch_signals env w) =
     Returns ((catch_signals env w)\<lparr>weechat_quit_signal := signo SIGTERM\<rparr>) \<and>
   weechat_quit_signal (world_of (weechat_init env argv gui_init_cb w)) =
     weechat_quit_signal w \<and>
   weechat_quit_signal (world_of (weechat_shutdown env return_code crash w)) =
     weechat_quit_signal w \<and>
   weechat_quit_signal (world_of (weechat_end env gui_end_cb w)) = weechat_quit_signal w"
  by (simp add: weechat_sighup_def weechat_sigquit_def weechat_sigterm_def deliver_def
      sigtable_catch_signals init_quit_signal shutdown_quit_signal end_quit_signal)

theorem handlers_store_signal_witness:
  "weechat_quit_signal (weechat_sighup initial_world) = 1 \<and>
   weechat_quit_signal (weechat_sigterm (weechat_sighup initial_world)) = 15 \<and>
   trace (weechat_sigquit initial_world) = [] \<and>
   weechat_quit_signal
     (world_of (deliver env0 SIGTERM (catch_signals env0 initial_world))) = 15"
  using handlers_store_signal [of initial_world env0 "[]" False 0 0 False]
    handlers_store_signal [of "weechat_sighup initial_world" env0 "[]" False 0 0 False]
  by (simp add: initial_world_def)

text \<open>
  C9 (amended). Every fatal ending of the initialisation has the failure code. On the
  usage-error and home-resolution paths (an option without its argument; \<open>HOME\<close> unset
  while \<open>~\<close> is used; no memory for the home path; an empty compiled-in default; a home
  that is not a directory; a directory that cannot be created) a diagnostic is printed
  to the error stream before the process ends. On the paths where \<open>secure_init\<close> or
  \<open>config_weechat_init\<close> fails the file prints no diagnostic of its own: all that reaches
  the error stream are the chat lines the collaborators left waiting, which
  \<open>weechat_shutdown\<close> flushes; when none is waiting the process ends silently.
\<close>

theorem fatal_paths_diagnostic:
  assumes "weechat_init env argv gui_init_cb (process_start h) = Exits c w'"
    and "c \<noteq> EXIT_SUCCESS"
  shows "c = EXIT_FAILURE \<and>
         (if secure_init_ok env \<and> config_weechat_init_ok env
          then \<exists>m. is_error m \<and> Fprintf Stderr m \<in> set (trace w')
          else filter stderr_out (trace w') =
                 map (Line_out (Some Stderr))
                   (lines_waiting (if secure_init_ok env then before_args env (process_start h)
                                   else at_secure_init env (process_start h))))"
  using assms by (rule init_exits)

theorem fatal_paths_diagnostic_witness:
  "exit_code (weechat_init env0 [''weechat'', ''-d''] True (process_start False)) =
     Some EXIT_FAILURE \<and>
   EXIT_FAILURE \<noteq> EXIT_SUCCESS \<and> secure_init_ok env0 \<and> config_weechat_init_ok env0 \<and>
   (\<exists>m. is_error m \<and> Fprintf Stderr m \<in>
      set (trace (world_of (weechat_init env0 [''weechat'', ''-d''] True (process_start False)))))"
proof -
  have x: "exit_code (weechat_init env0 [''weechat'', ''-d''] True (process_start False)) =
     Some EXIT_FAILURE"
    by (simp add: run)
  have n: "EXIT_FAILURE \<noteq> EXIT_SUCCESS"
    by (simp add: EXIT_FAILURE_def EXIT_SUCCESS_def)
  show ?thesis
    using fatal_paths_diagnostic [OF exit_code_world_of [OF x] n] x n by simp
qed

theorem fatal_paths_diagnostic_counterexample:
  "\<not> secure_init_ok env_secure_fails \<and>
   exit_code (weechat_init env_secure_fails [''weechat''] True (process_start False)) =
     Some EXIT_FAILURE \<and>
   filter stderr_out
     (trace (world_of (weechat_init env_secure_fails [''weechat''] True (process_start False))))
     = []"
  using run_secure_fails by simp

text \<open>
  C10. Every call of \<open>weechat_shutdown\<close> in a state whose three strings are valid, the
  form that merely returns included, flushes the waiting chat lines to the error stream,
  then calls \<open>log_close\<close>, \<open>network_end\<close> and \<open>debug_end\<close>, then frees the strings
  \<open>weechat_argv0\<close>, \<open>weechat_home\<close> and \<open>weechat_local_charset\<close> that are not null, and only
  then returns, exits or aborts. The three global pointers keep their values, and none
  of them points to a live block any more: a pointer that was not null is left dangling.
\<close>

theorem shutdown_teardown:
  assumes "strings_valid w"
  shows "\<exists>w'. weechat_shutdown env return_code crash w =
             (if crash \<noteq> 0 then Aborts w'
              else if 0 \<le> return_code then Exits return_code w'
              else Returns w') \<and>
           trace w' = trace w @ Call (Gui_chat_print_lines_waiting_buffer (Some Stderr))
                  # map (Line_out (Some Stderr)) (lines_waiting w)
                  @ [Call Log_close, Call Network_end, Call Debug_end]
                  @ map Free (addrs [weechat_argv0 w, weechat_home w, weechat_local_charset w]) \<and>
           weechat_argv0 w' = weechat_argv0 w \<and> cstr w' (weechat_argv0 w') = None \<and>
           weechat_home w' = weechat_home w \<and> cstr w' (weechat_home w') = None \<and>
           weechat_local_charset w' = weechat_local_charset w \<and>
           cstr w' (weechat_local_charset w') = None"
  using shutdown_valid [OF assms, of env return_code crash]
  by (cases "weechat_argv0 w"; cases "weechat_home w"; cases "weechat_local_charset w")
     (auto simp add: finish_def teardown_def cstr_def)

theorem shutdown_teardown_witness:
  "strings_valid world1 \<and>
   (\<exists>w'. weechat_shutdown env0 (- 1) 0 world1 = Returns w' \<and>
      trace w' = [Call (Gui_chat_print_lines_waiting_buffer (Some Stderr)),
                  Call Log_close, Call Network_end, Call Debug_end, Free 1] \<and>
      weechat_home w' = Some 1 \<and> cstr w' (weechat_home w') = None)"
  using shutdown_teardown [OF strings_valid_world1, of env0 "- 1" 0] strings_valid_world1
  by (auto simp add: world1_def initial_world_def)

end
